theory Spec2Isabelle
  imports Main
begin

section \<open>Values read from and written to the files\<close>

text \<open>
  The program keeps three files: \<^verbatim>\<open>state.json\<close> (one JSON document), and the two
  JSON-lines files \<^verbatim>\<open>session_log.jsonl\<close> and \<^verbatim>\<open>log_archive.jsonl\<close>. The text of
  a file is represented by what \<^verbatim>\<open>json.loads\<close> makes of it: a line of a log is blank
  (\<^verbatim>\<open>raw.strip()\<close> is empty), or text on which \<^verbatim>\<open>json.loads\<close> raises
  \<^verbatim>\<open>JSONDecodeError\<close> (\<open>Garbage s\<close>, where \<open>s\<close> is what is known of the text), or the
  text of a JSON value. The line that \<^verbatim>\<open>json.dumps(item)\<close> writes is the line that
  decodes to \<open>item\<close> again.

  A write that fails can stop in the middle of a line, and the file then ends without
  a newline. \<open>Torn\<close> at the end of a file says so: the line before it is the last line
  of the file and has no newline. It is no line itself, and a loop over the lines of
  the file finds nothing at it.
\<close>

datatype exn = AttributeError | TypeError | ValueError | OverflowError

text \<open>A Python float read from JSON: \<open>Dyadic m e\<close> is \<open>m * 2 ^ e\<close>.\<close>

datatype pyfloat = Dyadic int int | NaN | Infinity bool

datatype json =
    JNull
  | JBool bool
  | JInt int
  | JFloat pyfloat
  | JStr string
  | JArr "json list"
  | JObj "(string \<times> json) list"

datatype line = Blank | Garbage string | Entry json | Torn

datatype document = Malformed | Document json

section \<open>The platform: library functions and the local time zone\<close>

text \<open>
  Instants are microseconds since the epoch; every datetime of the program is made
  timezone-aware by \<^verbatim>\<open>astimezone()\<close>, so it is compared by its instant.
  \<^item> \<open>fromisoformat P s\<close> is \<^verbatim>\<open>datetime.fromisoformat(s).astimezone()\<close>,
    \<open>Inl\<close> the exception when it raises;
  \<^item> \<open>isoformat_seconds P t\<close> is \<^verbatim>\<open>t.isoformat(timespec='seconds')\<close> of the local
    datetime at instant \<open>t\<close>;
  \<^item> \<open>utcoffset P t\<close> is the offset of local time from UTC at instant \<open>t\<close>, in
    microseconds;
  \<^item> \<open>int_of_str P s\<close> is \<^verbatim>\<open>int(s)\<close> on a string, \<open>None\<close> when it raises
    \<^verbatim>\<open>ValueError\<close>;
  \<^item> \<open>strftime_a P d\<close> is \<^verbatim>\<open>d.strftime('%a')\<close>, the locale's short name of the
    weekday of the date \<open>d\<close>.
  A date is the number of its day, counted from 1970-01-01.
\<close>

record platform =
  fromisoformat :: "string \<Rightarrow> exn + int"
  isoformat_seconds :: "int \<Rightarrow> string"
  utcoffset :: "int \<Rightarrow> int"
  int_of_str :: "string \<Rightarrow> int option"
  strftime_a :: "int \<Rightarrow> string"

text \<open>
  What one call of an operation meets: the readings of \<^verbatim>\<open>datetime.now()\<close>, one for
  each place that reads the clock, and the outcome of each file operation. An append
  that fails with \<^verbatim>\<open>OSError\<close> may have left part of its output behind:
  \<open>Some (whole, cut)\<close> gives the whole lines it wrote and, where the output stops inside
  a line or just before its newline, that last line without its newline (the
  beginning of the text of an item, which is undecodable, or all of it). An atomic
  write or a read that fails leaves the file as it was.
\<close>

record env =
  now_caller :: int
  now_entry :: int
  now_prune :: int
  now_archive :: int
  read_state_fails :: bool
  write_state_fails :: bool
  append_log_fails :: "(line list \<times> line option) option"
  read_log_fails :: bool
  write_log_fails :: bool
  append_archive_fails :: "(line list \<times> line option) option"
  read_archive_fails :: bool
  write_archive_fails :: bool

text \<open>The storage object with the files under its base directory (\<open>None\<close>: no such file).\<close>

record CalorieStorage =
  archive_retention_days :: int
  state_file :: "document option"
  session_log :: "line list option"
  archive_log :: "line list option"

section \<open>storage.py\<close>

definition day_us :: int where
  "day_us = 86400000000"

text \<open>\<^verbatim>\<open>item.get(key)\<close>: only a dict has the method.\<close>

fun get :: "json \<Rightarrow> string \<Rightarrow> exn + json option" where
  "get (JObj kv) k = Inr (map_of kv k)"
| "get _ k = Inl AttributeError"

fun parse_iso_datetime :: "platform \<Rightarrow> json option \<Rightarrow> exn + int option" where
  "parse_iso_datetime P (Some (JStr s)) =
     (if s = [] then Inr None
      else case fromisoformat P s of
             Inr t \<Rightarrow> Inr (Some t)
           | Inl e \<Rightarrow> if e = ValueError then Inr None else Inl e)"
| "parse_iso_datetime P _ = Inr None"

text \<open>
  The loop of \<^verbatim>\<open>prune_session_log\<close> over the lines of the file, with its two
  accumulators. \<open>Entry item\<close> is the line \<^verbatim>\<open>json.dumps(item)\<close>.
\<close>

fun partition_lines ::
  "platform \<Rightarrow> int \<Rightarrow> line list \<Rightarrow> line list \<Rightarrow> line list \<Rightarrow> exn + (line list \<times> line list)" where
  "partition_lines P cutoff [] kept_lines archived_lines = Inr (kept_lines, archived_lines)"
| "partition_lines P cutoff (Blank # rest) kept_lines archived_lines =
     partition_lines P cutoff rest kept_lines archived_lines"
| "partition_lines P cutoff (Garbage s # rest) kept_lines archived_lines =
     partition_lines P cutoff rest kept_lines archived_lines"
| "partition_lines P cutoff (Torn # rest) kept_lines archived_lines =
     partition_lines P cutoff rest kept_lines archived_lines"
| "partition_lines P cutoff (Entry item # rest) kept_lines archived_lines =
     (case get item ''timestamp'' of
        Inl e \<Rightarrow> Inl e
      | Inr v \<Rightarrow>
          (case parse_iso_datetime P v of
             Inl e \<Rightarrow> Inl e
           | Inr None \<Rightarrow> partition_lines P cutoff rest kept_lines archived_lines
           | Inr (Some timestamp) \<Rightarrow>
               if timestamp \<ge> cutoff
               then partition_lines P cutoff rest (kept_lines @ [Entry item]) archived_lines
               else partition_lines P cutoff rest kept_lines (archived_lines @ [Entry item])))"

text \<open>The loop of \<^verbatim>\<open>prune_archive_log\<close>.\<close>

fun retain_lines :: "platform \<Rightarrow> int \<Rightarrow> line list \<Rightarrow> line list \<Rightarrow> exn + line list" where
  "retain_lines P cutoff [] kept_lines = Inr kept_lines"
| "retain_lines P cutoff (Blank # rest) kept_lines = retain_lines P cutoff rest kept_lines"
| "retain_lines P cutoff (Garbage s # rest) kept_lines = retain_lines P cutoff rest kept_lines"
| "retain_lines P cutoff (Torn # rest) kept_lines = retain_lines P cutoff rest kept_lines"
| "retain_lines P cutoff (Entry item # rest) kept_lines =
     (case get item ''timestamp'' of
        Inl e \<Rightarrow> Inl e
      | Inr v \<Rightarrow>
          (case parse_iso_datetime P v of
             Inl e \<Rightarrow> Inl e
           | Inr None \<Rightarrow> retain_lines P cutoff rest kept_lines
           | Inr (Some timestamp) \<Rightarrow>
               if timestamp \<ge> cutoff
               then retain_lines P cutoff rest (kept_lines @ [Entry item])
               else retain_lines P cutoff rest kept_lines))"

text \<open>The lines of a file (none when there is no file).\<close>

definition contents :: "line list option \<Rightarrow> line list" where
  "contents file = (case file of None \<Rightarrow> [] | Some lines \<Rightarrow> lines)"

text \<open>
  Text written at the end of a file. When the file ends without a newline, the first
  line written continues its last line. Every text the program appends begins with the
  brace of an item, so the two on one line are undecodable, unless the last line was
  blank.
\<close>

definition torn :: "line list \<Rightarrow> bool" where
  "torn lines \<longleftrightarrow> lines \<noteq> [] \<and> last lines = Torn"

fun glue :: "line \<Rightarrow> line \<Rightarrow> line" where
  "glue Blank l = l"
| "glue Torn l = l"
| "glue (Garbage s) l = Garbage s"
| "glue (Entry item) l = Garbage []"

definition write_after :: "line list \<Rightarrow> line list \<Rightarrow> line list" where
  "write_after old new =
     (if torn old \<and> new \<noteq> []
      then (case butlast old of
              [] \<Rightarrow> new
            | l # ls \<Rightarrow> butlast (l # ls) @ glue (last (l # ls)) (hd new) # tl new)
      else old @ new)"

text \<open>What a cut append leaves behind: whole lines, then a last line without newline.\<close>

definition left_behind :: "line list \<times> line option \<Rightarrow> line list" where
  "left_behind partial =
     (case partial of
        (whole, None) \<Rightarrow> whole
      | (whole, Some l) \<Rightarrow> whole @ [l, Torn])"

text \<open>Opening a file for appending and writing lines to it.\<close>

definition append_file ::
  "(line list \<times> line option) option \<Rightarrow> line list option \<Rightarrow> line list
     \<Rightarrow> bool \<times> line list option" where
  "append_file fails file lines =
     (case fails of
        None \<Rightarrow> (True, Some (write_after (contents file) lines))
      | Some partial \<Rightarrow>
          (False, if left_behind partial = [] then file
                  else Some (write_after (contents file) (left_behind partial))))"

text \<open>
  \<^verbatim>\<open>append_archive_lines\<close>: the directory is made before the test for an empty list,
  so a call with no lines can fail too, and then writes nothing.
\<close>

definition append_archive_lines ::
  "env \<Rightarrow> CalorieStorage \<Rightarrow> line list \<Rightarrow> bool \<times> CalorieStorage" where
  "append_archive_lines E S lines =
     (if lines = [] then (append_archive_fails E = None, S)
      else case append_file (append_archive_fails E) (archive_log S) lines of
             (ok, file) \<Rightarrow> (ok, S\<lparr>archive_log := file\<rparr>))"

definition prune_archive_log :: "platform \<Rightarrow> env \<Rightarrow> CalorieStorage \<Rightarrow> exn option \<times> CalorieStorage" where
  "prune_archive_log P E S =
     (case archive_log S of
        None \<Rightarrow> (None, S)
      | Some lines \<Rightarrow>
          if read_archive_fails E then (None, S)
          else case retain_lines P (now_archive E - archive_retention_days S * day_us) lines [] of
                 Inl e \<Rightarrow> (Some e, S)
               | Inr kept_lines \<Rightarrow>
                   if write_archive_fails E then (None, S)
                   else (None, S\<lparr>archive_log := Some kept_lines\<rparr>))"

definition prune_session_log :: "platform \<Rightarrow> env \<Rightarrow> CalorieStorage \<Rightarrow> exn option \<times> CalorieStorage" where
  "prune_session_log P E S =
     (case session_log S of
        None \<Rightarrow> prune_archive_log P E S
      | Some lines \<Rightarrow>
          if read_log_fails E then (None, S)
          else case partition_lines P (now_prune E - 7 * day_us) lines [] [] of
                 Inl e \<Rightarrow> (Some e, S)
               | Inr (kept_lines, archived_lines) \<Rightarrow>
                   let (ok, S1) = (if archived_lines \<noteq> []
                                   then append_archive_lines E S archived_lines
                                   else (True, S))
                   in if \<not> ok then (None, S1)
                      else if write_log_fails E then (None, S1)
                      else prune_archive_log P E (S1\<lparr>session_log := Some kept_lines\<rparr>))"

subsection \<open>The state file\<close>

text \<open>\<^verbatim>\<open>data.get(key, default)\<close>.\<close>

fun get_or :: "json \<Rightarrow> string \<Rightarrow> json \<Rightarrow> exn + json" where
  "get_or (JObj kv) k d = Inr (case map_of kv k of None \<Rightarrow> d | Some v \<Rightarrow> v)"
| "get_or _ k d = Inl AttributeError"

text \<open>\<^verbatim>\<open>int(x)\<close> on a value read from JSON; a float is truncated towards zero.\<close>

fun py_int :: "platform \<Rightarrow> json \<Rightarrow> exn + int" where
  "py_int P (JInt n) = Inr n"
| "py_int P (JBool b) = Inr (if b then 1 else 0)"
| "py_int P (JFloat (Dyadic m e)) =
     Inr (if e \<ge> 0 then m * 2 ^ nat e else sgn m * (\<bar>m\<bar> div 2 ^ nat (- e)))"
| "py_int P (JFloat NaN) = Inl ValueError"
| "py_int P (JFloat (Infinity neg)) = Inl OverflowError"
| "py_int P (JStr s) = (case int_of_str P s of None \<Rightarrow> Inl ValueError | Some n \<Rightarrow> Inr n)"
| "py_int P JNull = Inl TypeError"
| "py_int P (JArr xs) = Inl TypeError"
| "py_int P (JObj kv) = Inl TypeError"

definition and_then :: "exn + 'a \<Rightarrow> ('a \<Rightarrow> exn + 'b) \<Rightarrow> exn + 'b" where
  "and_then r f = (case r of Inl e \<Rightarrow> Inl e | Inr x \<Rightarrow> f x)"

text \<open>The body of the \<^verbatim>\<open>with\<close> block of \<^verbatim>\<open>load_state\<close>, after \<^verbatim>\<open>json.load\<close>.\<close>

definition read_fields ::
  "platform \<Rightarrow> int \<Rightarrow> json \<Rightarrow> int \<Rightarrow> int \<Rightarrow> exn + (int \<times> int \<times> int \<times> int \<times> bool)" where
  "read_fields P now_local data default_left_click_amount default_right_click_amount =
     and_then (get_or data ''calories'' (JInt 0)) (\<lambda>v.
     and_then (py_int P v) (\<lambda>c.
     let calories = max 0 c in
     and_then (get_or data ''left_click_amount'' (JInt default_left_click_amount)) (\<lambda>v.
     and_then (py_int P v) (\<lambda>left_click_amount.
     and_then (get_or data ''right_click_amount'' (JInt default_right_click_amount)) (\<lambda>v.
     and_then (py_int P v) (\<lambda>right_click_amount.
     and_then (get data ''session_start'') (\<lambda>session_start_raw.
     and_then (parse_iso_datetime P session_start_raw) (\<lambda>session_start.
     case session_start of
       None \<Rightarrow> Inr (calories, max 0 left_click_amount, max 0 right_click_amount, now_local, True)
     | Some t \<Rightarrow> Inr (calories, max 0 left_click_amount, max 0 right_click_amount, t, False)
     ))))))))"

text \<open>
  \<^verbatim>\<open>load_state\<close>: \<^verbatim>\<open>JSONDecodeError\<close>, \<^verbatim>\<open>OSError\<close> and \<^verbatim>\<open>ValueError\<close> are caught and
  lead to the defaults; any other exception leaves the function.
\<close>

definition load_state ::
  "platform \<Rightarrow> env \<Rightarrow> CalorieStorage \<Rightarrow> int \<Rightarrow> int \<Rightarrow> exn + (int \<times> int \<times> int \<times> int \<times> bool)" where
  "load_state P E S default_left_click_amount default_right_click_amount =
     (let now_local = now_caller E;
          defaults = Inr (0, default_left_click_amount, default_right_click_amount, now_local, True)
      in case state_file S of
           None \<Rightarrow> defaults
         | Some text \<Rightarrow>
             if read_state_fails E then defaults
             else case text of
                    Malformed \<Rightarrow> defaults
                  | Document data \<Rightarrow>
                      (case read_fields P now_local data
                              default_left_click_amount default_right_click_amount of
                         Inl e \<Rightarrow> if e = ValueError then defaults else Inl e
                       | Inr r \<Rightarrow> Inr r))"

definition state_json :: "platform \<Rightarrow> int \<Rightarrow> int \<Rightarrow> int \<Rightarrow> int \<Rightarrow> json" where
  "state_json P calories left_click_amount right_click_amount session_start =
     JObj [(''calories'', JInt calories),
           (''left_click_amount'', JInt left_click_amount),
           (''right_click_amount'', JInt right_click_amount),
           (''session_start'', JStr (isoformat_seconds P session_start))]"

definition save_state ::
  "platform \<Rightarrow> env \<Rightarrow> CalorieStorage \<Rightarrow> int \<Rightarrow> int \<Rightarrow> int \<Rightarrow> int \<Rightarrow> CalorieStorage" where
  "save_state P E S calories left_click_amount right_click_amount session_start =
     (if write_state_fails E then S
      else S\<lparr>state_file :=
             Some (Document (state_json P calories left_click_amount right_click_amount
                               session_start))\<rparr>)"

subsection \<open>Appending an event\<close>

definition event_json :: "platform \<Rightarrow> int \<Rightarrow> int \<Rightarrow> int \<Rightarrow> string \<Rightarrow> json" where
  "event_json P now delta calories_after action =
     JObj [(''timestamp'', JStr (isoformat_seconds P now)),
           (''delta'', JInt delta),
           (''calories_after'', JInt calories_after),
           (''action'', JStr action)]"

definition append_session_event ::
  "platform \<Rightarrow> env \<Rightarrow> CalorieStorage \<Rightarrow> int \<Rightarrow> int \<Rightarrow> string \<Rightarrow> (exn + bool) \<times> CalorieStorage" where
  "append_session_event P E S delta calories_after action =
     (let entry = event_json P (now_entry E) delta calories_after action;
          (ok, file) = append_file (append_log_fails E) (session_log S) [Entry entry]
      in if \<not> ok then (Inr False, S\<lparr>session_log := file\<rparr>)
         else case prune_session_log P E (S\<lparr>session_log := file\<rparr>) of
                (Some e, S') \<Rightarrow> (Inl e, S')
              | (None, S') \<Rightarrow> (Inr True, S'))"

section \<open>calorie\_widget.py\<close>

text \<open>
  The tray object: its four fields and its storage. Drawing the icon and showing a
  dialog change none of them and are left out.
\<close>

record CalorieTray =
  calories :: int
  left_click_amount :: int
  right_click_amount :: int
  session_start :: int
  storage :: CalorieStorage

definition save_tray :: "platform \<Rightarrow> env \<Rightarrow> CalorieTray \<Rightarrow> CalorieStorage \<Rightarrow> CalorieStorage" where
  "save_tray P E T S =
     save_state P E S (calories T) (left_click_amount T) (right_click_amount T) (session_start T)"

text \<open>
  A handler returns the tray as it leaves it, and the exception that ended it, if any.
\<close>

definition on_left_click :: "platform \<Rightarrow> env \<Rightarrow> CalorieTray \<Rightarrow> exn option \<times> CalorieTray" where
  "on_left_click P E T =
     (let T1 = T\<lparr>calories := calories T + left_click_amount T\<rparr>
      in case append_session_event P E (storage T1) (left_click_amount T1) (calories T1) ''add'' of
           (Inl e, S1) \<Rightarrow> (Some e, T1\<lparr>storage := S1\<rparr>)
         | (Inr appended, S1) \<Rightarrow> (None, T1\<lparr>storage := save_tray P E T1 S1\<rparr>))"

definition on_right_click :: "platform \<Rightarrow> env \<Rightarrow> CalorieTray \<Rightarrow> exn option \<times> CalorieTray" where
  "on_right_click P E T =
     (let before = calories T;
          T1 = T\<lparr>calories := max 0 (calories T - right_click_amount T)\<rparr>;
          actual_subtract = before - calories T1
      in if actual_subtract > 0
         then case append_session_event P E (storage T1) (- actual_subtract) (calories T1)
                     ''subtract'' of
                (Inl e, S1) \<Rightarrow> (Some e, T1\<lparr>storage := S1\<rparr>)
              | (Inr appended, S1) \<Rightarrow> (None, T1\<lparr>storage := save_tray P E T1 S1\<rparr>)
         else (None, T1\<lparr>storage := save_tray P E T1 (storage T1)\<rparr>))"

definition on_reset :: "platform \<Rightarrow> env \<Rightarrow> CalorieTray \<Rightarrow> exn option \<times> CalorieTray" where
  "on_reset P E T =
     (let reset_time = now_caller E
      in case append_session_event P E (storage T) 0 0 ''reset'' of
           (Inl e, S1) \<Rightarrow> (Some e, T\<lparr>storage := S1\<rparr>)
         | (Inr appended, S1) \<Rightarrow>
             if \<not> appended then (None, T\<lparr>storage := S1\<rparr>)
             else let T1 = T\<lparr>calories := 0, session_start := reset_time, storage := S1\<rparr>
                  in (None, T1\<lparr>storage := save_tray P E T1 S1\<rparr>))"

section \<open>weekly.py\<close>

subsection \<open>Dates and formatting\<close>

definition local_date :: "platform \<Rightarrow> int \<Rightarrow> int" where
  "local_date P t = (t + utcoffset P t) div day_us"

text \<open>The decimal digits of a number that is not negative.\<close>

function dec :: "int \<Rightarrow> string" where
  "dec n = (if n < 10 then [''0123456789'' ! nat n]
            else dec (n div 10) @ [''0123456789'' ! nat (n mod 10)])"
  by pat_completeness auto
termination
  by (relation "measure nat") auto

definition zfill :: "nat \<Rightarrow> string \<Rightarrow> string" where
  "zfill w s = replicate (w - length s) (CHR ''0'') @ s"

text \<open>The civil date of a day number, in the proleptic Gregorian calendar.\<close>

definition civil_from_days :: "int \<Rightarrow> int \<times> int \<times> int" where
  "civil_from_days d =
     (let z = d + 719468;
          era = z div 146097;
          doe = z mod 146097;
          yoe = (doe - doe div 1460 + doe div 36524 - doe div 146096) div 365;
          doy = doe - (365 * yoe + yoe div 4 - yoe div 100);
          mp = (5 * doy + 2) div 153;
          dd = doy - (153 * mp + 2) div 5 + 1;
          m = (if mp < 10 then mp + 3 else mp - 9);
          y = yoe + era * 400 + (if m \<le> 2 then 1 else 0)
      in (y, m, dd))"

definition days_from_civil :: "int \<Rightarrow> int \<Rightarrow> int \<Rightarrow> int" where
  "days_from_civil y m d =
     (let y' = (if m \<le> 2 then y - 1 else y);
          era = y' div 400;
          yoe = y' mod 400;
          doy = (153 * (if m > 2 then m - 3 else m + 9) + 2) div 5 + d - 1;
          doe = yoe * 365 + yoe div 4 - yoe div 100 + doy
      in era * 146097 + doe - 719468)"

text \<open>\<^verbatim>\<open>date.isoformat()\<close>, for the years 1 to 9999 of a Python date.\<close>

definition date_isoformat :: "int \<Rightarrow> string" where
  "date_isoformat d =
     (case civil_from_days d of
        (y, m, dd) \<Rightarrow>
          zfill 4 (dec y) @ ''-'' @ zfill 2 (dec m) @ ''-'' @ zfill 2 (dec dd))"

text \<open>The format \<^verbatim>\<open>{n:+d}\<close>.\<close>

definition fmt_plus_d :: "int \<Rightarrow> string" where
  "fmt_plus_d n = (if n \<ge> 0 then ''+'' else ''-'') @ dec \<bar>n\<bar>"

text \<open>
  The format \<^verbatim>\<open>{total_net / float(days_count):+.1f}\<close> for 1 to 7 days: the quotient
  rounded to one decimal, a tie to the even digit. The double that Python divides to
  carries a relative error below \<open>2 ^ -52\<close>; with at most 7 days a quotient that is not
  a tie is at least \<open>1/140\<close> away from one, and the ties (odd quarters) are exact
  doubles, so the digits are those of the exact quotient for every total below
  \<open>2 ^ 40\<close> in absolute value.
\<close>

definition fmt_plus_1f :: "int \<Rightarrow> int \<Rightarrow> string" where
  "fmt_plus_1f total_net days_count =
     (let n = 10 * \<bar>total_net\<bar>;
          q = n div days_count;
          r = n mod days_count;
          tenths = (if 2 * r > days_count \<or> (2 * r = days_count \<and> odd q) then q + 1 else q)
      in (if total_net \<ge> 0 then ''+'' else ''-'') @ dec (tenths div 10) @ ''.''
           @ dec (tenths mod 10))"

text \<open>Joining the lines with a newline between them.\<close>

fun join_lines :: "string list \<Rightarrow> string" where
  "join_lines [] = []"
| "join_lines [l] = l"
| "join_lines (l # ls) = l @ [CHR 0x0A] @ join_lines ls"

subsection \<open>The summary\<close>

record bar =
  day_key :: string
  label :: string
  net :: int

text \<open>What \<^verbatim>\<open>build_last_week_summary\<close> returns: a string, or the dict of text and bars.\<close>

datatype summary = Str string | Dict string "bar list"

text \<open>
  A dict with string keys, as the list of its items in the order of their insertion:
  \<open>map_of d k\<close> looks a key up, \<open>assign d k v\<close> is \<^verbatim>\<open>d[k] = v\<close>.
\<close>

fun assign :: "(string \<times> 'v) list \<Rightarrow> string \<Rightarrow> 'v \<Rightarrow> (string \<times> 'v) list" where
  "assign [] k v = [(k, v)]"
| "assign ((k', v') # d) k v = (if k' = k then (k', v) # d else (k', v') # assign d k v)"

record tally =
  totals_net :: "(string \<times> int) list"
  day_has_data :: "(string \<times> bool) list"
  first_session_event_ts :: "int option"

text \<open>The first loop: the two dicts get a key for each of the seven days.\<close>

fun init_days :: "int \<Rightarrow> nat list \<Rightarrow> tally \<Rightarrow> tally" where
  "init_days start_day [] A = A"
| "init_days start_day (offset # rest) A =
     (let key = date_isoformat (start_day + int offset)
      in init_days start_day rest
           (A\<lparr>totals_net := assign (totals_net A) key 0,
              day_has_data := assign (day_has_data A) key False\<rparr>))"

text \<open>The body of the loop over the events, for one event.\<close>

definition count_event :: "platform \<Rightarrow> json \<Rightarrow> tally \<Rightarrow> exn + tally" where
  "count_event P item A =
     (case get item ''action'' of
        Inl e \<Rightarrow> Inl e
      | Inr action \<Rightarrow>
          if action \<notin> set (map (\<lambda>a. Some (JStr a)) [''add'', ''subtract'', ''reset'', ''init''])
          then Inr A
          else
            (case get item ''timestamp'' of
               Inl e \<Rightarrow> Inl e
             | Inr v \<Rightarrow>
                 (case parse_iso_datetime P v of
                    Inl e \<Rightarrow> Inl e
                  | Inr None \<Rightarrow> Inr A
                  | Inr (Some timestamp) \<Rightarrow>
                      let day_key = date_isoformat (local_date P timestamp)
                      in case map_of (totals_net A) day_key of
                           None \<Rightarrow> Inr A
                         | Some day_total \<Rightarrow>
                             (case and_then (get_or item ''delta'' (JInt 0)) (py_int P) of
                                Inl e \<Rightarrow>
                                  if e = TypeError \<or> e = ValueError then Inr A else Inl e
                              | Inr delta \<Rightarrow>
                                  Inr (A\<lparr>first_session_event_ts :=
                                            (case first_session_event_ts A of
                                               None \<Rightarrow> Some timestamp
                                             | Some first \<Rightarrow>
                                                 if timestamp < first then Some timestamp
                                                 else Some first),
                                          day_has_data := assign (day_has_data A) day_key True,
                                          totals_net :=
                                            assign (totals_net A) day_key
                                              (day_total + delta)\<rparr>)))))"

text \<open>
  The loop over \<^verbatim>\<open>iter_recent_session_events(window_start)\<close>: the generator reads a
  line and yields its item, the loop body counts it, and so on line by line.
\<close>

fun count_events :: "platform \<Rightarrow> int \<Rightarrow> line list \<Rightarrow> tally \<Rightarrow> exn + tally" where
  "count_events P window_start [] A = Inr A"
| "count_events P window_start (Blank # rest) A = count_events P window_start rest A"
| "count_events P window_start (Garbage s # rest) A = count_events P window_start rest A"
| "count_events P window_start (Torn # rest) A = count_events P window_start rest A"
| "count_events P window_start (Entry item # rest) A =
     (case get item ''timestamp'' of
        Inl e \<Rightarrow> Inl e
      | Inr v \<Rightarrow>
          (case parse_iso_datetime P v of
             Inl e \<Rightarrow> Inl e
           | Inr None \<Rightarrow> count_events P window_start rest A
           | Inr (Some timestamp) \<Rightarrow>
               if timestamp \<ge> window_start
               then (case count_event P item A of
                       Inl e \<Rightarrow> Inl e
                     | Inr A' \<Rightarrow> count_events P window_start rest A')
               else count_events P window_start rest A))"

text \<open>
  The second loop over the seven days, with its accumulators \<^verbatim>\<open>lines\<close>,
  \<^verbatim>\<open>daily_bars\<close>, \<^verbatim>\<open>total_net\<close> and \<^verbatim>\<open>days_count\<close>.
\<close>

fun list_days ::
  "platform \<Rightarrow> tally \<Rightarrow> int \<Rightarrow> int \<Rightarrow> bool \<Rightarrow> nat list \<Rightarrow>
     string list \<times> bar list \<times> int \<times> int \<Rightarrow> string list \<times> bar list \<times> int \<times> int" where
  "list_days P A start_day tracked_start_day any_tracking [] acc = acc"
| "list_days P A start_day tracked_start_day any_tracking (offset # rest)
     (lines, daily_bars, total_net, days_count) =
     (let day = start_day + int offset;
          day_key = date_isoformat day
      in if day < tracked_start_day
         then list_days P A start_day tracked_start_day any_tracking rest
                (lines, daily_bars, total_net, days_count)
         else if \<not> any_tracking
         then list_days P A start_day tracked_start_day any_tracking rest
                (lines, daily_bars, total_net, days_count)
         else
           let day_net = (case map_of (totals_net A) day_key of None \<Rightarrow> 0 | Some n \<Rightarrow> n)
           in if (case map_of (day_has_data A) day_key of None \<Rightarrow> False | Some b \<Rightarrow> b)
              then list_days P A start_day tracked_start_day any_tracking rest
                     (lines @ [day_key @ '' ('' @ strftime_a P day @ ''): net ''
                                 @ fmt_plus_d day_net @ '' kcal''],
                      daily_bars @ [\<lparr>day_key = day_key, label = strftime_a P day, net = day_net\<rparr>],
                      total_net + day_net, days_count + 1)
              else list_days P A start_day tracked_start_day any_tracking rest
                     (lines @ [day_key @ '' ('' @ strftime_a P day @ ''): no data''],
                      daily_bars, total_net + day_net, days_count + 1))"

text \<open>
  The rest of the function. \<^verbatim>\<open>tracked_start\<close> is the first event, a local datetime,
  or \<^verbatim>\<open>window_start\<close>, whose date is \<^verbatim>\<open>start_day\<close>.
\<close>

definition finish_summary :: "platform \<Rightarrow> int \<Rightarrow> tally \<Rightarrow> summary" where
  "finish_summary P start_day A =
     (let tracked_start_day = (case first_session_event_ts A of
                                 Some first \<Rightarrow> local_date P first
                               | None \<Rightarrow> start_day);
          any_tracking = (first_session_event_ts A \<noteq> None)
      in case list_days P A start_day tracked_start_day any_tracking [0..<7] ([], [], 0, 0) of
           (lines, daily_bars, total_net, days_count) \<Rightarrow>
             Dict (join_lines
                     (lines @ [[]] @
                      (if days_count = 0 then [''No tracked data in the last 7 days.'']
                       else [''Tracked-period net: '' @ fmt_plus_d total_net @ '' kcal'',
                             ''Tracked-period average net: ''
                               @ fmt_plus_1f total_net days_count @ '' kcal/day''])))
                  daily_bars)"

definition build_last_week_summary :: "platform \<Rightarrow> env \<Rightarrow> CalorieStorage \<Rightarrow> exn + summary" where
  "build_last_week_summary P E S =
     (let now = now_caller E;
          today = local_date P now;
          start_day = today - 6;
          window_start = start_day * day_us - utcoffset P now;
          A0 = init_days start_day [0..<7]
                 \<lparr>totals_net = [], day_has_data = [], first_session_event_ts = None\<rparr>
      in case session_log S of
           None \<Rightarrow> Inr (finish_summary P start_day A0)
         | Some lines \<Rightarrow>
             if read_log_fails E then Inr (Str ''Failed to read weekly summary.'')
             else case count_events P window_start lines A0 of
                    Inl e \<Rightarrow> Inl e
                  | Inr A \<Rightarrow> Inr (finish_summary P start_day A))"

section \<open>A platform for the examples\<close>

text \<open>
  A machine whose local time is UTC and whose locale is English. Its
  \<open>fromisoformat\<close> reads the forms \<^verbatim>\<open>YYYY-MM-DDTHH:MM\<close> and \<^verbatim>\<open>YYYY-MM-DDTHH:MM:SS\<close>,
  alone (a naive time, taken as local time) or followed by \<^verbatim>\<open>+00:00\<close>, and refuses
  every other string; its \<open>int_of_str\<close> reads an optional sign and decimal digits
  between blanks. The examples use no other strings.
\<close>

definition digit :: "char \<Rightarrow> int option" where
  "digit c = map_of (zip ''0123456789'' [0, 1, 2, 3, 4, 5, 6, 7, 8, 9]) c"

fun number :: "string \<Rightarrow> int \<Rightarrow> int option" where
  "number [] acc = Some acc"
| "number (c # cs) acc = (case digit c of None \<Rightarrow> None | Some d \<Rightarrow> number cs (10 * acc + d))"

definition field :: "string \<Rightarrow> nat \<Rightarrow> nat \<Rightarrow> int option" where
  "field s i n = number (take n (drop i s)) 0"

definition utc_fromisoformat :: "string \<Rightarrow> exn + int" where
  "utc_fromisoformat s =
     (let body = (if 6 < length s \<and> drop (length s - 6) s = ''+00:00''
                  then take (length s - 6) s else s)
      in if (length body = 16 \<or> length body = 19 \<and> body ! 16 = CHR '':'')
            \<and> body ! 4 = CHR ''-'' \<and> body ! 7 = CHR ''-'' \<and> body ! 10 = CHR ''T''
            \<and> body ! 13 = CHR '':''
         then (case field body 0 4 of None \<Rightarrow> Inl ValueError | Some y \<Rightarrow>
               case field body 5 2 of None \<Rightarrow> Inl ValueError | Some m \<Rightarrow>
               case field body 8 2 of None \<Rightarrow> Inl ValueError | Some d \<Rightarrow>
               case field body 11 2 of None \<Rightarrow> Inl ValueError | Some hh \<Rightarrow>
               case field body 14 2 of None \<Rightarrow> Inl ValueError | Some mm \<Rightarrow>
               case (if length body = 19 then field body 17 2 else Some 0) of
                 None \<Rightarrow> Inl ValueError
               | Some ss \<Rightarrow>
                   if 1 \<le> y \<and> civil_from_days (days_from_civil y m d) = (y, m, d)
                      \<and> hh < 24 \<and> mm < 60 \<and> ss < 60
                   then Inr (days_from_civil y m d * day_us
                             + ((hh * 60 + mm) * 60 + ss) * 1000000)
                   else Inl ValueError)
         else Inl ValueError)"

definition utc_isoformat_seconds :: "int \<Rightarrow> string" where
  "utc_isoformat_seconds t =
     (let secs = (t mod day_us) div 1000000
      in date_isoformat (t div day_us) @ ''T''
           @ zfill 2 (dec (secs div 3600)) @ '':''
           @ zfill 2 (dec (secs div 60 mod 60)) @ '':''
           @ zfill 2 (dec (secs mod 60)) @ ''+00:00'')"

definition utc_int_of_str :: "string \<Rightarrow> int option" where
  "utc_int_of_str s =
     (let t = rev (dropWhile (\<lambda>c. c = CHR '' '') (rev (dropWhile (\<lambda>c. c = CHR '' '') s)));
          (neg, ds) = (case t of
                         c # cs \<Rightarrow> if c = CHR ''-'' then (True, cs)
                                   else if c = CHR ''+'' then (False, cs) else (False, t)
                       | [] \<Rightarrow> (False, t))
      in if ds = [] then None
         else map_option (\<lambda>n. if neg then - n else n) (number ds 0))"

definition utc_strftime_a :: "int \<Rightarrow> string" where
  "utc_strftime_a d =
     [''Mon'', ''Tue'', ''Wed'', ''Thu'', ''Fri'', ''Sat'', ''Sun''] ! nat ((d + 3) mod 7)"

definition utc_platform :: platform where
  "utc_platform =
     \<lparr>fromisoformat = utc_fromisoformat,
      isoformat_seconds = utc_isoformat_seconds,
      utcoffset = (\<lambda>t. 0),
      int_of_str = utc_int_of_str,
      strftime_a = utc_strftime_a\<rparr>"

text \<open>An environment in which every reading of the clock is \<open>t\<close> and no file operation fails.\<close>

definition calm :: "int \<Rightarrow> env" where
  "calm t =
     \<lparr>now_caller = t, now_entry = t, now_prune = t, now_archive = t,
      read_state_fails = False, write_state_fails = False,
      append_log_fails = None, read_log_fails = False, write_log_fails = False,
      append_archive_fails = None, read_archive_fails = False, write_archive_fails = False\<rparr>"

definition event :: "string \<Rightarrow> int \<Rightarrow> int \<Rightarrow> string \<Rightarrow> line" where
  "event timestamp delta calories_after action =
     Entry (JObj [(''timestamp'', JStr timestamp), (''delta'', JInt delta),
                  (''calories_after'', JInt calories_after), (''action'', JStr action)])"

definition disk :: "document option \<Rightarrow> line list option \<Rightarrow> line list option \<Rightarrow> CalorieStorage" where
  "disk st lg ar =
     \<lparr>archive_retention_days = 90, state_file = st, session_log = lg, archive_log = ar\<rparr>"

text \<open>The instant of a timestamp on this platform.\<close>

definition at :: "string \<Rightarrow> int" where
  "at s = (case utc_fromisoformat s of Inr t \<Rightarrow> t | Inl e \<Rightarrow> 0)"

text \<open>A log with an entry of 1 January 2024, two lines without a timestamp and an entry of 9 January.\<close>

definition old_and_new :: "line list" where
  "old_and_new =
     [event ''2024-01-01T08:00'' 0 0 ''init'', Garbage ''{timestamp'', Blank,
      event ''2024-01-09T09:00'' 50 50 ''add'']"

text \<open>Environments on 10 January 2024 in which one file operation fails.\<close>

definition archive_down :: env where
  "archive_down = (calm (at ''2024-01-10T00:00''))\<lparr>append_archive_fails := Some ([], None)\<rparr>"



definition log_write_down :: env where
  "log_write_down = (calm (at ''2024-01-10T00:00''))\<lparr>write_log_fails := True\<rparr>"

text \<open>
  A tray with 100 kcal counted, the default steps and an empty log, and an environment
  on 10 January 2024 in which the append to the active log fails.
\<close>

definition tray0 :: CalorieTray where
  "tray0 =
     \<lparr>calories = 100, left_click_amount = 50, right_click_amount = 10,
      session_start = at ''2024-01-05T08:00'', storage = disk None (Some []) None\<rparr>"

definition log_down :: env where
  "log_down = (calm (at ''2024-01-10T00:00''))\<lparr>append_log_fails := Some ([], None)\<rparr>"



text \<open>
  State files: one whose counter is not a number beside a step of 70, and one with a
  negative step.
\<close>

definition state_bad_counter :: json where
  "state_bad_counter =
     JObj [(''calories'', JStr ''abc''), (''left_click_amount'', JInt 70),
           (''right_click_amount'', JInt 5),
           (''session_start'', JStr ''2024-01-05T08:00:00+00:00'')]"

definition state_negative_step :: json where
  "state_negative_step =
     JObj [(''calories'', JInt 7), (''left_click_amount'', JInt (- 70)),
           (''right_click_amount'', JInt 5),
           (''session_start'', JStr ''2024-01-05T08:00:00+00:00'')]"

text \<open>A state file without the counter and without a readable \<^verbatim>\<open>session_start\<close>.\<close>

definition state_partial :: json where
  "state_partial =
     JObj [(''left_click_amount'', JInt 70), (''right_click_amount'', JStr ''5''),
           (''session_start'', JStr ''yesterday'')]"

text \<open>The log of three entries of 1 and 2 January 2024.\<close>

definition example_week :: "line list" where
  "example_week =
     [event ''2024-01-01T08:00'' 0 0 ''init'',
      event ''2024-01-01T09:00'' 50 50 ''add'',
      event ''2024-01-02T10:00'' (- 10) 40 ''subtract'']"

text \<open>An environment on 10 January 2024 in which the active log cannot be read.\<close>

definition log_read_down :: env where
  "log_read_down = (calm (at ''2024-01-10T00:00''))\<lparr>read_log_fails := True\<rparr>"

section \<open>The logs, read by their timestamps\<close>

text \<open>
  The timestamp that the loops over a log find on a line: none on a blank or
  undecodable line, the parsed \<^verbatim>\<open>item.get('timestamp')\<close> on the line of an item, or the
  exception that looking for it raises. A line is \<open>fresh\<close> at a cutoff when it has a
  timestamp not before the cutoff, \<open>stale\<close> when it has one before it, and
  \<open>readable\<close> when looking for its timestamp raises nothing.
\<close>

fun stamp :: "platform \<Rightarrow> line \<Rightarrow> exn + int option" where
  "stamp P Blank = Inr None"
| "stamp P (Garbage s) = Inr None"
| "stamp P Torn = Inr None"
| "stamp P (Entry item) =
     (case get item ''timestamp'' of
        Inl e \<Rightarrow> Inl e
      | Inr v \<Rightarrow> parse_iso_datetime P v)"

definition fresh :: "platform \<Rightarrow> int \<Rightarrow> line \<Rightarrow> bool" where
  "fresh P cutoff l = (case stamp P l of Inr (Some t) \<Rightarrow> cutoff \<le> t | _ \<Rightarrow> False)"

definition stale :: "platform \<Rightarrow> int \<Rightarrow> line \<Rightarrow> bool" where
  "stale P cutoff l = (case stamp P l of Inr (Some t) \<Rightarrow> t < cutoff | _ \<Rightarrow> False)"

definition readable :: "platform \<Rightarrow> line \<Rightarrow> bool" where
  "readable P l = (case stamp P l of Inl e \<Rightarrow> False | Inr v \<Rightarrow> True)"

text \<open>
  The conditions under which \<^verbatim>\<open>prune_session_log\<close> reaches its atomic write of the
  active log and the write succeeds.
\<close>

definition rewritten :: "platform \<Rightarrow> env \<Rightarrow> line list \<Rightarrow> bool" where
  "rewritten P E lines \<longleftrightarrow>
     \<not> read_log_fails E \<and> (\<forall>l\<in>set lines. readable P l) \<and>
     (append_archive_fails E = None \<or> filter (stale P (now_prune E - 7 * day_us)) lines = []) \<and>
     \<not> write_log_fails E"


text \<open>The value that \<^verbatim>\<open>data.get(key, default)\<close> finds in the object of a state file.\<close>

definition stored :: "(string \<times> json) list \<Rightarrow> string \<Rightarrow> json \<Rightarrow> json" where
  "stored kv k d = (case map_of kv k of None \<Rightarrow> d | Some v \<Rightarrow> v)"

text \<open>
  The window of \<^verbatim>\<open>build_last_week_summary\<close>: its start, the keys of its seven days,
  and the lines that count in it: entries with a timestamp not before the start of
  the window, one of the four actions, and a date that is one of the seven days.
\<close>

definition week_start :: "platform \<Rightarrow> env \<Rightarrow> int" where
  "week_start P E =
     (local_date P (now_caller E) - 6) * day_us - utcoffset P (now_caller E)"

definition week_keys :: "platform \<Rightarrow> env \<Rightarrow> string list" where
  "week_keys P E =
     map (\<lambda>offset. date_isoformat (local_date P (now_caller E) - 6 + int offset)) [0..<7]"

definition tracked :: "platform \<Rightarrow> env \<Rightarrow> line \<Rightarrow> bool" where
  "tracked P E l =
     (case l of
        Entry item \<Rightarrow>
          (case stamp P l of
             Inr (Some t) \<Rightarrow>
               week_start P E \<le> t
               \<and> (case get item ''action'' of
                     Inr action \<Rightarrow>
                       action \<in> set (map (\<lambda>a. Some (JStr a))
                                       [''add'', ''subtract'', ''reset'', ''init''])
                   | Inl e \<Rightarrow> False)
               \<and> date_isoformat (local_date P t) \<in> set (week_keys P E)
           | _ \<Rightarrow> False)
      | _ \<Rightarrow> False)"

text \<open>The text of a summary without a tracked day.\<close>

definition no_data_text :: string where
  "no_data_text = CHR 0x0A # ''No tracked data in the last 7 days.''"

section \<open>Pruning the active log\<close>


lemma partition_lines_step:
  "partition_lines P c (l # rest) k a =
     (case stamp P l of
        Inl e \<Rightarrow> Inl e
      | Inr None \<Rightarrow> partition_lines P c rest k a
      | Inr (Some t) \<Rightarrow>
          if c \<le> t then partition_lines P c rest (k @ [l]) a
          else partition_lines P c rest k (a @ [l]))"
  by (cases l) (simp_all split: sum.splits option.splits)


lemma stamp_Some:
  "stamp P l = Inr (Some t) \<Longrightarrow> fresh P c l = (c \<le> t)"
  "stamp P l = Inr (Some t) \<Longrightarrow> stale P c l = (t < c)"
  "stamp P l = Inr (Some t) \<Longrightarrow> readable P l"
  by (simp_all add: fresh_def stale_def readable_def)

lemma stamp_None:
  "stamp P l = Inr None \<Longrightarrow> \<not> fresh P c l"
  "stamp P l = Inr None \<Longrightarrow> \<not> stale P c l"
  "stamp P l = Inr None \<Longrightarrow> readable P l"
  by (simp_all add: fresh_def stale_def readable_def)

lemma stamp_Inl:
  "stamp P l = Inl e \<Longrightarrow> \<not> fresh P c l"
  "stamp P l = Inl e \<Longrightarrow> \<not> stale P c l"
  "stamp P l = Inl e \<Longrightarrow> \<not> readable P l"
  by (simp_all add: fresh_def stale_def readable_def)

lemma partition_lines_Inr:
  "partition_lines P c ls k a = Inr (k', a') \<Longrightarrow>
     k' = k @ filter (fresh P c) ls \<and> a' = a @ filter (stale P c) ls \<and> (\<forall>l\<in>set ls. readable P l)"
proof (induction ls arbitrary: k a)
  case Nil
  then show ?case by simp
next
  case (Cons l ls)
  show ?case
  proof (cases "stamp P l")
    case (Inl e)
    with Cons.prems show ?thesis by (simp add: partition_lines_step)
  next
    case (Inr v)
    show ?thesis
    proof (cases v)
      case None
      with Inr Cons.prems have "partition_lines P c ls k a = Inr (k', a')"
        by (simp add: partition_lines_step)
      from Cons.IH[OF this] Inr None show ?thesis
        by (simp add: stamp_Some stamp_None)
    next
      case (Some t)
      show ?thesis
      proof (cases "c \<le> t")
        case True
        with Inr Some Cons.prems have "partition_lines P c ls (k @ [l]) a = Inr (k', a')"
          by (simp add: partition_lines_step)
        from Cons.IH[OF this] Inr Some True show ?thesis
          by (simp add: stamp_Some stamp_None)
      next
        case False
        with Inr Some Cons.prems have "partition_lines P c ls k (a @ [l]) = Inr (k', a')"
          by (simp add: partition_lines_step)
        from Cons.IH[OF this] Inr Some False show ?thesis
          by (simp add: stamp_Some stamp_None)
      qed
    qed
  qed
qed

lemma partition_lines_readable:
  "\<forall>l\<in>set ls. readable P l \<Longrightarrow>
     partition_lines P c ls k a = Inr (k @ filter (fresh P c) ls, a @ filter (stale P c) ls)"
proof (induction ls arbitrary: k a)
  case Nil
  then show ?case by simp
next
  case (Cons l ls)
  then have IH: "\<And>k a. partition_lines P c ls k a
      = Inr (k @ filter (fresh P c) ls, a @ filter (stale P c) ls)"
    by simp
  from Cons.prems obtain v where v: "stamp P l = Inr v"
    by (auto simp: readable_def split: sum.splits)
  show ?case
    by (cases v) (simp_all add: partition_lines_step v IH stamp_Some stamp_None)
qed

lemma partition_lines_raises:
  "partition_lines P c ls k a = Inl e \<Longrightarrow> \<exists>l\<in>set ls. \<not> readable P l"
  using partition_lines_readable[of ls P c k a] by auto


lemma fresh_readable: "fresh P c l \<Longrightarrow> readable P l"
  by (auto simp: fresh_def readable_def split: sum.splits)

lemma fresh_not_stale: "fresh P c l \<Longrightarrow> \<not> stale P c l"
  by (auto simp: fresh_def stale_def split: sum.splits option.splits)

lemma filter_fresh_stale: "filter (\<lambda>x. fresh P c x \<and> stale P c x) ls = []"
  by (induction ls) (auto simp: fresh_not_stale)

lemma partition_lines_again:
  "partition_lines P c (filter (fresh P c) ls) [] [] = Inr (filter (fresh P c) ls, [])"
proof -
  have "\<forall>l\<in>set (filter (fresh P c) ls). readable P l"
    using fresh_readable by auto
  from partition_lines_readable[OF this, of c "[]" "[]"]
  show ?thesis by (simp add: filter_fresh_stale)
qed

lemma prune_archive_log_keeps_session:
  "session_log (snd (prune_archive_log P E S)) = session_log S"
  by (simp add: prune_archive_log_def split: option.splits sum.splits)


lemma append_archive_lines_session:
  "session_log (snd (append_archive_lines E S ls)) = session_log S"
  by (simp add: append_archive_lines_def append_file_def split: option.splits prod.splits)

lemma append_archive_lines_ok:
  "fst (append_archive_lines E S ls) = (append_archive_fails E = None)"
  by (simp add: append_archive_lines_def append_file_def split: option.splits prod.splits)

lemma prune_session_log_active:
  assumes "session_log S = Some lines"
  shows "session_log (snd (prune_session_log P E S)) =
     (if rewritten P E lines then Some (filter (fresh P (now_prune E - 7 * day_us)) lines)
      else Some lines)"
proof (cases "read_log_fails E")
  case True
  with assms show ?thesis by (simp add: prune_session_log_def rewritten_def)
next
  case False
  note rd = this
  show ?thesis
  proof (cases "partition_lines P (now_prune E - 7 * day_us) lines [] []")
    case (Inl e)
    from partition_lines_raises[OF Inl] have "\<not> rewritten P E lines"
      by (auto simp: rewritten_def)
    with assms rd Inl show ?thesis by (simp add: prune_session_log_def)
  next
    case (Inr ka)
    obtain k a where ka: "ka = (k, a)" by (cases ka)
    from partition_lines_Inr[OF Inr[unfolded ka]]
    have k: "k = filter (fresh P (now_prune E - 7 * day_us)) lines"
      and a: "a = filter (stale P (now_prune E - 7 * day_us)) lines"
      and r: "\<forall>l\<in>set lines. readable P l" by simp_all
    show ?thesis
    proof (cases "a = []")
      case True
      with assms rd Inr ka k a r show ?thesis
        by (simp add: prune_session_log_def rewritten_def prune_archive_log_keeps_session)
    next
      case False
      obtain ok S1 where ap: "append_archive_lines E S a = (ok, S1)"
        by (cases "append_archive_lines E S a")
      from ap append_archive_lines_ok[of E S a] False
      have ok: "ok = (append_archive_fails E = None)" by simp
      from ap append_archive_lines_session[of E S a] assms
      have s1: "session_log S1 = Some lines" by simp
      from assms rd Inr ka False ap ok s1 k a r show ?thesis
        by (simp add: prune_session_log_def rewritten_def prune_archive_log_keeps_session)
    qed
  qed
qed

lemma prune_session_log_absent:
  "session_log S = None \<Longrightarrow> session_log (snd (prune_session_log P E S)) = None"
  by (simp add: prune_session_log_def prune_archive_log_keeps_session)

text \<open>
  Claim C9. Pruning the active log is idempotent, for every content of the log: a
  second run of \<^verbatim>\<open>prune_session_log\<close> at the same reading of the clock leaves the
  active log with the content the first run left, when the first run met no failing
  file operation (whatever the second meets), and also when both runs meet the same
  outcomes of their file operations.
\<close>

theorem prune_session_log_idempotent:
  assumes "now_prune E2 = now_prune E1"
      and "(\<not> read_log_fails E1 \<and> append_archive_fails E1 = None \<and> \<not> write_log_fails E1)
         \<or> (read_log_fails E2 = read_log_fails E1
            \<and> append_archive_fails E2 = append_archive_fails E1
            \<and> write_log_fails E2 = write_log_fails E1)"
  shows "session_log (snd (prune_session_log P E2 (snd (prune_session_log P E1 S))))
       = session_log (snd (prune_session_log P E1 S))"
proof (cases "session_log S")
  case None
  then show ?thesis by (simp add: prune_session_log_absent)
next
  case (Some lines)
  let ?S1 = "snd (prune_session_log P E1 S)"
  let ?c = "now_prune E1 - 7 * day_us"
  show ?thesis
  proof (cases "rewritten P E1 lines")
    case True
    with Some have s1: "session_log ?S1 = Some (filter (fresh P ?c) lines)"
      by (simp add: prune_session_log_active)
    from prune_session_log_active[OF s1, of P E2] assms(1) s1 show ?thesis
      by simp
  next
    case False
    with Some have s1: "session_log ?S1 = Some lines"
      by (simp add: prune_session_log_active)
    from False assms have "\<not> rewritten P E2 lines"
      by (auto simp: rewritten_def)
    with prune_session_log_active[OF s1, of P E2] s1 show ?thesis by simp
  qed
qed

theorem prune_session_log_idempotent_witness:
  "now_prune log_write_down = now_prune (calm (at ''2024-01-10T00:00''))
   \<and> \<not> read_log_fails (calm (at ''2024-01-10T00:00''))
   \<and> append_archive_fails (calm (at ''2024-01-10T00:00'')) = None
   \<and> \<not> write_log_fails (calm (at ''2024-01-10T00:00''))
   \<and> session_log (snd (prune_session_log utc_platform log_write_down
        (snd (prune_session_log utc_platform (calm (at ''2024-01-10T00:00''))
           (disk None (Some old_and_new) None)))))
      = session_log (snd (prune_session_log utc_platform (calm (at ''2024-01-10T00:00''))
           (disk None (Some old_and_new) None)))
   \<and> session_log (snd (prune_session_log utc_platform (calm (at ''2024-01-10T00:00''))
           (disk None (Some old_and_new) None)))
      = Some [event ''2024-01-09T09:00'' 50 50 ''add'']
   \<and> session_log (snd (prune_session_log utc_platform archive_down
        (snd (prune_session_log utc_platform archive_down
           (disk None (Some old_and_new) None)))))
      = session_log (snd (prune_session_log utc_platform archive_down
           (disk None (Some old_and_new) None)))"
proof -
  let ?E = "calm (at ''2024-01-10T00:00'')"
  let ?S = "disk None (Some old_and_new) None"
  have n: "now_prune log_write_down = now_prune ?E" by (simp add: log_write_down_def)
  have h2: "\<not> read_log_fails ?E" by (simp add: calm_def)
  have h3: "append_archive_fails ?E = None" by (simp add: calm_def)
  have h4: "\<not> write_log_fails ?E" by (simp add: calm_def)
  have v: "session_log (snd (prune_session_log utc_platform ?E ?S))
      = Some [event ''2024-01-09T09:00'' 50 50 ''add'']"
    by code_simp
  from h2 h3 h4 have d1: "(\<not> read_log_fails ?E \<and> append_archive_fails ?E = None
        \<and> \<not> write_log_fails ?E)
      \<or> (read_log_fails log_write_down = read_log_fails ?E
         \<and> append_archive_fails log_write_down = append_archive_fails ?E
         \<and> write_log_fails log_write_down = write_log_fails ?E)" by blast
  have d2: "(\<not> read_log_fails archive_down \<and> append_archive_fails archive_down = None
        \<and> \<not> write_log_fails archive_down)
      \<or> (read_log_fails archive_down = read_log_fails archive_down
         \<and> append_archive_fails archive_down = append_archive_fails archive_down
         \<and> write_log_fails archive_down = write_log_fails archive_down)" by blast
  from prune_session_log_idempotent[OF n d1, of utc_platform ?S]
       prune_session_log_idempotent[OF refl d2, of utc_platform ?S] n h2 h3 h4 v
  show ?thesis by blast
qed












section \<open>The handlers of the tray\<close>

lemma prune_archive_log_state_file:
  "state_file (snd (prune_archive_log P E S)) = state_file S"
  by (simp add: prune_archive_log_def split: option.splits sum.splits)

lemma append_archive_lines_state_file:
  "state_file (snd (append_archive_lines E S ls)) = state_file S"
  by (simp add: append_archive_lines_def split: prod.splits)

lemma prune_session_log_state_file:
  "state_file (snd (prune_session_log P E S)) = state_file S"
proof (cases "session_log S")
  case None
  then show ?thesis by (simp add: prune_session_log_def prune_archive_log_state_file)
next
  case (Some lines)
  show ?thesis
  proof (cases "partition_lines P (now_prune E - 7 * day_us) lines [] []")
    case (Inl e)
    with Some show ?thesis by (simp add: prune_session_log_def)
  next
    case (Inr ka)
    obtain k a where ka: "ka = (k, a)" by (cases ka)
    obtain ok S1 where ap: "append_archive_lines E S a = (ok, S1)"
      by (cases "append_archive_lines E S a")
    from ap append_archive_lines_state_file[of E S a] have "state_file S1 = state_file S" by simp
    with Some Inr ka ap show ?thesis
      by (simp add: prune_session_log_def prune_archive_log_state_file)
  qed
qed

lemma append_session_event_state_file:
  "state_file (snd (append_session_event P E S d c a)) = state_file S"
proof -
  obtain ok f where af: "append_file (append_log_fails E) (session_log S)
      [Entry (event_json P (now_entry E) d c a)] = (ok, f)"
    by (cases "append_file (append_log_fails E) (session_log S)
      [Entry (event_json P (now_entry E) d c a)]")
  obtain x S' where pr: "prune_session_log P E (S\<lparr>session_log := f\<rparr>) = (x, S')"
    by (cases "prune_session_log P E (S\<lparr>session_log := f\<rparr>)")
  from pr prune_session_log_state_file[of P E "S\<lparr>session_log := f\<rparr>"]
  have "state_file S' = state_file S" by simp
  with af pr show ?thesis
    by (simp add: append_session_event_def split: option.splits)
qed

lemma append_session_event_cases:
  obtains (failed) S1 where "append_session_event P E S d c a = (Inr False, S1)"
  | (appended) S1 where "append_session_event P E S d c a = (Inr True, S1)"
  | (raised) e S1 where "append_session_event P E S d c a = (Inl e, S1)"
proof (cases "append_session_event P E S d c a")
  case (Pair r S1)
  show ?thesis
  proof (cases r)
    case (Inl e)
    with Pair show ?thesis by (simp add: raised)
  next
    case (Inr b)
    with Pair show ?thesis by (cases b) (simp_all add: failed appended)
  qed
qed

text \<open>
  Claim C1. When \<^verbatim>\<open>append_session_event(0, 0, 'reset')\<close> returns failure,
  \<^verbatim>\<open>on_reset\<close> leaves the counter and \<^verbatim>\<open>session_start\<close> as they were and the state
  file is not written. When it returns success, the counter is 0 and
  \<^verbatim>\<open>session_start\<close> is the reset time, read before the append, and the save that
  follows writes both to the state file: the counter 0 and the reset time in the text
  of whole seconds that \<^verbatim>\<open>save_state\<close> gives every \<^verbatim>\<open>session_start\<close>.
\<close>

theorem on_reset_waits_for_append:
  "(fst (append_session_event P E (storage T) 0 0 ''reset'') = Inr False \<longrightarrow>
      fst (on_reset P E T) = None
      \<and> calories (snd (on_reset P E T)) = calories T
      \<and> session_start (snd (on_reset P E T)) = session_start T
      \<and> state_file (storage (snd (on_reset P E T))) = state_file (storage T))
   \<and> (fst (append_session_event P E (storage T) 0 0 ''reset'') = Inr True \<longrightarrow>
      fst (on_reset P E T) = None
      \<and> calories (snd (on_reset P E T)) = 0
      \<and> session_start (snd (on_reset P E T)) = now_caller E
      \<and> (\<not> write_state_fails E \<longrightarrow>
           state_file (storage (snd (on_reset P E T)))
             = Some (Document (state_json P 0 (left_click_amount T) (right_click_amount T)
                                 (now_caller E)))))"
proof (cases rule: append_session_event_cases[of P E "storage T" 0 0 "''reset''"])
  case (failed S1)
  with append_session_event_state_file[of P E "storage T" 0 0 "''reset''"]
  show ?thesis by (simp add: on_reset_def)
next
  case (appended S1)
  then show ?thesis by (simp add: on_reset_def save_tray_def save_state_def Let_def)
next
  case (raised e S1)
  then show ?thesis by simp
qed


theorem on_reset_waits_for_append_witness:
  "fst (append_session_event utc_platform log_down (storage tray0) 0 0 ''reset'') = Inr False
   \<and> fst (on_reset utc_platform log_down tray0) = None
   \<and> calories (snd (on_reset utc_platform log_down tray0)) = 100
   \<and> session_start (snd (on_reset utc_platform log_down tray0)) = at ''2024-01-05T08:00''
   \<and> state_file (storage (snd (on_reset utc_platform log_down tray0))) = None
   \<and> fst (append_session_event utc_platform (calm (at ''2024-01-10T00:00'')) (storage tray0)
          0 0 ''reset'') = Inr True
   \<and> \<not> write_state_fails (calm (at ''2024-01-10T00:00''))
   \<and> calories (snd (on_reset utc_platform (calm (at ''2024-01-10T00:00'')) tray0)) = 0
   \<and> session_start (snd (on_reset utc_platform (calm (at ''2024-01-10T00:00'')) tray0))
       = at ''2024-01-10T00:00''
   \<and> state_file (storage (snd (on_reset utc_platform (calm (at ''2024-01-10T00:00'')) tray0)))
       = Some (Document (JObj [(''calories'', JInt 0), (''left_click_amount'', JInt 50),
                               (''right_click_amount'', JInt 10),
                               (''session_start'', JStr ''2024-01-10T00:00:00+00:00'')]))"
proof -
  let ?E = "calm (at ''2024-01-10T00:00'')"
  have f: "fst (append_session_event utc_platform log_down (storage tray0) 0 0 ''reset'') = Inr False"
    by code_simp
  have t: "fst (append_session_event utc_platform ?E (storage tray0) 0 0 ''reset'') = Inr True"
    by code_simp
  have w: "\<not> write_state_fails ?E" by (simp add: calm_def)
  have v: "calories tray0 = 100" "session_start tray0 = at ''2024-01-05T08:00''"
    "state_file (storage tray0) = None" "left_click_amount tray0 = 50"
    "right_click_amount tray0 = 10" "now_caller ?E = at ''2024-01-10T00:00''"
    by (simp_all add: tray0_def disk_def calm_def)
  have j: "state_json utc_platform 0 50 10 (at ''2024-01-10T00:00'')
      = JObj [(''calories'', JInt 0), (''left_click_amount'', JInt 50),
              (''right_click_amount'', JInt 10),
              (''session_start'', JStr ''2024-01-10T00:00:00+00:00'')]"
    by code_simp
  from on_reset_waits_for_append[of utc_platform log_down tray0, THEN conjunct1] f
  have a: "fst (on_reset utc_platform log_down tray0) = None
      \<and> calories (snd (on_reset utc_platform log_down tray0)) = 100
      \<and> session_start (snd (on_reset utc_platform log_down tray0)) = at ''2024-01-05T08:00''
      \<and> state_file (storage (snd (on_reset utc_platform log_down tray0))) = None"
    by (simp add: v)
  from on_reset_waits_for_append[of utc_platform ?E tray0, THEN conjunct2] t w
  have b: "calories (snd (on_reset utc_platform ?E tray0)) = 0
      \<and> session_start (snd (on_reset utc_platform ?E tray0)) = at ''2024-01-10T00:00''
      \<and> state_file (storage (snd (on_reset utc_platform ?E tray0)))
          = Some (Document (JObj [(''calories'', JInt 0), (''left_click_amount'', JInt 50),
                               (''right_click_amount'', JInt 10),
                               (''session_start'', JStr ''2024-01-10T00:00:00+00:00'')]))"
    by (simp add: v j)
  from f t w a b show ?thesis by blast
qed

lemma on_left_click_calories:
  "calories (snd (on_left_click P E T)) = calories T + left_click_amount T"
  by (cases rule: append_session_event_cases[of P E "storage T" "left_click_amount T"
        "calories T + left_click_amount T" "''add''"])
     (simp_all add: on_left_click_def Let_def)

lemma on_right_click_unfold:
  "on_right_click P E T =
     (if 0 < min (calories T) (right_click_amount T)
      then case append_session_event P E (storage T)
                  (- min (calories T) (right_click_amount T))
                  (max 0 (calories T - right_click_amount T)) ''subtract'' of
             (Inl e, S1) \<Rightarrow>
               (Some e, T\<lparr>calories := max 0 (calories T - right_click_amount T), storage := S1\<rparr>)
           | (Inr appended, S1) \<Rightarrow>
               (None, T\<lparr>calories := max 0 (calories T - right_click_amount T),
                         storage := save_state P E S1 (max 0 (calories T - right_click_amount T))
                                      (left_click_amount T) (right_click_amount T)
                                      (session_start T)\<rparr>)
      else (None, T\<lparr>calories := max 0 (calories T - right_click_amount T),
                      storage := save_state P E (storage T)
                                   (max 0 (calories T - right_click_amount T))
                                   (left_click_amount T) (right_click_amount T)
                                   (session_start T)\<rparr>))"
proof -
  have d: "calories T - max 0 (calories T - right_click_amount T)
      = min (calories T) (right_click_amount T)" by simp
  obtain r S1 where ap: "append_session_event P E (storage T)
      (- min (calories T) (right_click_amount T))
      (max 0 (calories T - right_click_amount T)) ''subtract'' = (r, S1)"
    by (cases "append_session_event P E (storage T)
      (- min (calories T) (right_click_amount T))
      (max 0 (calories T - right_click_amount T)) ''subtract''")
  show ?thesis
    by (cases r) (simp_all add: on_right_click_def Let_def save_tray_def d ap)
qed

lemma on_right_click_subtracts:
  assumes "0 < min (calories T) (right_click_amount T)"
  shows "on_right_click P E T =
     (case append_session_event P E (storage T)
                  (- min (calories T) (right_click_amount T))
                  (max 0 (calories T - right_click_amount T)) ''subtract'' of
             (Inl e, S1) \<Rightarrow>
               (Some e, T\<lparr>calories := max 0 (calories T - right_click_amount T), storage := S1\<rparr>)
           | (Inr appended, S1) \<Rightarrow>
               (None, T\<lparr>calories := max 0 (calories T - right_click_amount T),
                         storage := save_state P E S1 (max 0 (calories T - right_click_amount T))
                                      (left_click_amount T) (right_click_amount T)
                                      (session_start T)\<rparr>))"
  by (simp only: on_right_click_unfold[of P E T] assms if_True)

lemma on_right_click_idle:
  assumes "\<not> 0 < min (calories T) (right_click_amount T)"
  shows "on_right_click P E T =
     (None, T\<lparr>calories := max 0 (calories T - right_click_amount T),
                      storage := save_state P E (storage T)
                                   (max 0 (calories T - right_click_amount T))
                                   (left_click_amount T) (right_click_amount T)
                                   (session_start T)\<rparr>)"
  by (simp only: on_right_click_unfold[of P E T] assms if_False)

lemma on_right_click_calories:
  "calories (snd (on_right_click P E T)) = max 0 (calories T - right_click_amount T)"
proof (cases "0 < min (calories T) (right_click_amount T)")
  case True
  show ?thesis
    unfolding on_right_click_subtracts[OF True]
    by (cases rule: append_session_event_cases[of P E "storage T"
          "- min (calories T) (right_click_amount T)"
          "max 0 (calories T - right_click_amount T)" "''subtract''"]) simp_all
next
  case False
  show ?thesis unfolding on_right_click_idle[OF False] by simp
qed

text \<open>
  Claim C6, as amended. Only the reset waits for the append: when its append returns
  failure, the counter and \<^verbatim>\<open>session_start\<close> stay. A left click and a right click
  change the counter before they append and never look at what the append returns: the
  counter is the old one plus the step, or the old one minus the step and not below 0,
  whatever the append does, and after a failed append this counter is saved to the
  state file.
\<close>

theorem counter_change_kept_on_failed_append:
  "calories (snd (on_left_click P E T)) = calories T + left_click_amount T
   \<and> calories (snd (on_right_click P E T)) = max 0 (calories T - right_click_amount T)
   \<and> (fst (append_session_event P E (storage T) (left_click_amount T)
              (calories T + left_click_amount T) ''add'') = Inr False
        \<and> \<not> write_state_fails E
      \<longrightarrow> state_file (storage (snd (on_left_click P E T)))
            = Some (Document (state_json P (calories T + left_click_amount T)
                                (left_click_amount T) (right_click_amount T) (session_start T))))
   \<and> (0 < min (calories T) (right_click_amount T)
        \<and> fst (append_session_event P E (storage T) (- min (calories T) (right_click_amount T))
              (max 0 (calories T - right_click_amount T)) ''subtract'') = Inr False
        \<and> \<not> write_state_fails E
      \<longrightarrow> state_file (storage (snd (on_right_click P E T)))
            = Some (Document (state_json P (max 0 (calories T - right_click_amount T))
                                (left_click_amount T) (right_click_amount T) (session_start T))))
   \<and> (fst (append_session_event P E (storage T) 0 0 ''reset'') = Inr False
      \<longrightarrow> calories (snd (on_reset P E T)) = calories T
        \<and> session_start (snd (on_reset P E T)) = session_start T)"
proof -
  have l: "fst (append_session_event P E (storage T) (left_click_amount T)
              (calories T + left_click_amount T) ''add'') = Inr False
        \<and> \<not> write_state_fails E
      \<longrightarrow> state_file (storage (snd (on_left_click P E T)))
            = Some (Document (state_json P (calories T + left_click_amount T)
                                (left_click_amount T) (right_click_amount T) (session_start T)))"
    by (cases rule: append_session_event_cases[of P E "storage T" "left_click_amount T"
        "calories T + left_click_amount T" "''add''"])
       (simp_all add: on_left_click_def Let_def save_tray_def save_state_def)
  have r: "0 < min (calories T) (right_click_amount T)
        \<and> fst (append_session_event P E (storage T) (- min (calories T) (right_click_amount T))
              (max 0 (calories T - right_click_amount T)) ''subtract'') = Inr False
        \<and> \<not> write_state_fails E
      \<longrightarrow> state_file (storage (snd (on_right_click P E T)))
            = Some (Document (state_json P (max 0 (calories T - right_click_amount T))
                                (left_click_amount T) (right_click_amount T) (session_start T)))"
  proof (intro impI, elim conjE)
    assume pos: "0 < min (calories T) (right_click_amount T)"
      and f: "fst (append_session_event P E (storage T) (- min (calories T) (right_click_amount T))
              (max 0 (calories T - right_click_amount T)) ''subtract'') = Inr False"
      and w: "\<not> write_state_fails E"
    from f w show "state_file (storage (snd (on_right_click P E T)))
            = Some (Document (state_json P (max 0 (calories T - right_click_amount T))
                                (left_click_amount T) (right_click_amount T) (session_start T)))"
      unfolding on_right_click_subtracts[OF pos]
      by (cases rule: append_session_event_cases[of P E "storage T"
          "- min (calories T) (right_click_amount T)"
          "max 0 (calories T - right_click_amount T)" "''subtract''"])
         (simp_all add: save_state_def)
  qed
  have z: "fst (append_session_event P E (storage T) 0 0 ''reset'') = Inr False
      \<longrightarrow> calories (snd (on_reset P E T)) = calories T
        \<and> session_start (snd (on_reset P E T)) = session_start T"
    by (cases rule: append_session_event_cases[of P E "storage T" 0 0 "''reset''"])
       (simp_all add: on_reset_def)
  from on_left_click_calories[of P E T] on_right_click_calories[of P E T] l r z
  show ?thesis by blast
qed

theorem counter_change_kept_on_failed_append_witness:
  "fst (append_session_event utc_platform log_down (storage tray0) (left_click_amount tray0)
          (calories tray0 + left_click_amount tray0) ''add'') = Inr False
   \<and> \<not> write_state_fails log_down
   \<and> state_file (storage (snd (on_left_click utc_platform log_down tray0)))
       = Some (Document (state_json utc_platform 150 50 10 (at ''2024-01-05T08:00'')))
   \<and> 0 < min (calories tray0) (right_click_amount tray0)
   \<and> fst (append_session_event utc_platform log_down (storage tray0)
          (- min (calories tray0) (right_click_amount tray0))
          (max 0 (calories tray0 - right_click_amount tray0)) ''subtract'') = Inr False
   \<and> state_file (storage (snd (on_right_click utc_platform log_down tray0)))
       = Some (Document (state_json utc_platform 90 50 10 (at ''2024-01-05T08:00'')))
   \<and> fst (append_session_event utc_platform log_down (storage tray0) 0 0 ''reset'') = Inr False
   \<and> calories (snd (on_reset utc_platform log_down tray0)) = 100
   \<and> session_start (snd (on_reset utc_platform log_down tray0)) = at ''2024-01-05T08:00''"
proof -
  have v: "calories tray0 = 100" "left_click_amount tray0 = 50" "right_click_amount tray0 = 10"
    "session_start tray0 = at ''2024-01-05T08:00''"
    by (simp_all add: tray0_def)
  have w: "\<not> write_state_fails log_down" by (simp add: log_down_def calm_def)
  have l: "fst (append_session_event utc_platform log_down (storage tray0) (left_click_amount tray0)
          (calories tray0 + left_click_amount tray0) ''add'') = Inr False" by code_simp
  have p: "0 < min (calories tray0) (right_click_amount tray0)" by (simp add: v)
  have r: "fst (append_session_event utc_platform log_down (storage tray0)
          (- min (calories tray0) (right_click_amount tray0))
          (max 0 (calories tray0 - right_click_amount tray0)) ''subtract'') = Inr False"
    by code_simp
  have z: "fst (append_session_event utc_platform log_down (storage tray0) 0 0 ''reset'') = Inr False"
    by code_simp
  note main = counter_change_kept_on_failed_append[of utc_platform log_down tray0]
  from main l w have a: "state_file (storage (snd (on_left_click utc_platform log_down tray0)))
       = Some (Document (state_json utc_platform 150 50 10 (at ''2024-01-05T08:00'')))"
    by (simp add: v)
  from main p r w have b: "state_file (storage (snd (on_right_click utc_platform log_down tray0)))
       = Some (Document (state_json utc_platform 90 50 10 (at ''2024-01-05T08:00'')))"
    by (simp add: v)
  from main z have c: "calories (snd (on_reset utc_platform log_down tray0)) = 100
      \<and> session_start (snd (on_reset utc_platform log_down tray0)) = at ''2024-01-05T08:00''"
    by (simp add: v)
  from l w a p r b z c show ?thesis by blast
qed

text \<open>
  Claim C6 as stated fails: with 100 kcal counted and a step of 50, a left click whose
  append returns failure leaves the counter at 150 and saves 150.
\<close>

theorem on_left_click_ignores_failed_append:
  "fst (append_session_event utc_platform log_down (storage tray0) 50 150 ''add'') = Inr False
   \<and> calories tray0 = 100
   \<and> calories (snd (on_left_click utc_platform log_down tray0)) = 150
   \<and> state_file (storage (snd (on_left_click utc_platform log_down tray0)))
       = Some (Document (JObj [(''calories'', JInt 150), (''left_click_amount'', JInt 50),
                               (''right_click_amount'', JInt 10),
                               (''session_start'', JStr ''2024-01-05T08:00:00+00:00'')]))"
  by code_simp






section \<open>Loading and saving the state\<close>

lemma and_then_simps:
  "and_then (Inr x) f = f x"
  "and_then (Inl e) f = Inl e"
  by (simp_all add: and_then_def)

lemma get_or_stored: "get_or (JObj kv) k d = Inr (stored kv k d)"
  by (simp add: stored_def)

lemma load_state_absent:
  "state_file S = None \<or> state_file S = Some Malformed \<Longrightarrow>
   load_state P E S dl dr = Inr (0, dl, dr, now_caller E, True)"
  by (auto simp: load_state_def Let_def)

lemma read_fields_converted:
  assumes "py_int P (stored kv ''calories'' (JInt 0)) = Inr c"
      and "py_int P (stored kv ''left_click_amount'' (JInt dl)) = Inr l"
      and "py_int P (stored kv ''right_click_amount'' (JInt dr)) = Inr r"
      and "parse_iso_datetime P (map_of kv ''session_start'') = Inr ts"
  shows "read_fields P now (JObj kv) dl dr =
     Inr (max 0 c, max 0 l, max 0 r, (case ts of None \<Rightarrow> now | Some t \<Rightarrow> t), ts = None)"
  using assms
  by (cases ts) (simp_all add: read_fields_def stored_def and_then_simps Let_def)

lemma read_fields_ValueError:
  assumes "py_int P (stored kv ''calories'' (JInt 0)) = Inl ValueError
     \<or> (\<exists>c. py_int P (stored kv ''calories'' (JInt 0)) = Inr c
           \<and> py_int P (stored kv ''left_click_amount'' (JInt dl)) = Inl ValueError)
     \<or> (\<exists>c l. py_int P (stored kv ''calories'' (JInt 0)) = Inr c
           \<and> py_int P (stored kv ''left_click_amount'' (JInt dl)) = Inr l
           \<and> py_int P (stored kv ''right_click_amount'' (JInt dr)) = Inl ValueError)"
  shows "read_fields P now (JObj kv) dl dr = Inl ValueError"
  using assms
  by (auto simp: read_fields_def stored_def and_then_simps Let_def)

text \<open>
  Claim C5, as amended. For a state file that holds a JSON object: when
  \<^verbatim>\<open>int()\<close> converts the counter and both steps (each the stored value, or its default
  when the key is missing), \<^verbatim>\<open>load_state\<close> returns each of them clamped at 0 (so a
  negative counter gives 0, and a negative step gives 0 and not its default), and
  \<^verbatim>\<open>session_start\<close> as stored, or the current time with \<^verbatim>\<open>needs_persist\<close> true when
  it is missing or does not parse; no field changes another. When \<^verbatim>\<open>int()\<close> raises
  \<^verbatim>\<open>ValueError\<close> on one of the three (a string that is not a number), the whole
  default snapshot is returned: counter 0, the default steps, the current time and
  \<^verbatim>\<open>needs_persist\<close> true, whatever the other fields hold.
\<close>

theorem load_state_recovers:
  assumes "state_file S = Some (Document (JObj kv))" and "\<not> read_state_fails E"
  shows "(py_int P (stored kv ''calories'' (JInt 0)) = Inr c
          \<and> py_int P (stored kv ''left_click_amount'' (JInt dl)) = Inr l
          \<and> py_int P (stored kv ''right_click_amount'' (JInt dr)) = Inr r
          \<and> parse_iso_datetime P (map_of kv ''session_start'') = Inr ts
        \<longrightarrow> load_state P E S dl dr =
              Inr (max 0 c, max 0 l, max 0 r,
                   (case ts of None \<Rightarrow> now_caller E | Some t \<Rightarrow> t), ts = None))
       \<and> (py_int P (stored kv ''calories'' (JInt 0)) = Inl ValueError
          \<or> (\<exists>c. py_int P (stored kv ''calories'' (JInt 0)) = Inr c
                \<and> py_int P (stored kv ''left_click_amount'' (JInt dl)) = Inl ValueError)
          \<or> (\<exists>c l. py_int P (stored kv ''calories'' (JInt 0)) = Inr c
                \<and> py_int P (stored kv ''left_click_amount'' (JInt dl)) = Inr l
                \<and> py_int P (stored kv ''right_click_amount'' (JInt dr)) = Inl ValueError)
        \<longrightarrow> load_state P E S dl dr = Inr (0, dl, dr, now_caller E, True))"
proof (intro conjI impI)
  assume "py_int P (stored kv ''calories'' (JInt 0)) = Inr c
          \<and> py_int P (stored kv ''left_click_amount'' (JInt dl)) = Inr l
          \<and> py_int P (stored kv ''right_click_amount'' (JInt dr)) = Inr r
          \<and> parse_iso_datetime P (map_of kv ''session_start'') = Inr ts"
  then have "read_fields P (now_caller E) (JObj kv) dl dr =
     Inr (max 0 c, max 0 l, max 0 r, (case ts of None \<Rightarrow> now_caller E | Some t \<Rightarrow> t), ts = None)"
    by (simp add: read_fields_converted)
  with assms show "load_state P E S dl dr =
              Inr (max 0 c, max 0 l, max 0 r,
                   (case ts of None \<Rightarrow> now_caller E | Some t \<Rightarrow> t), ts = None)"
    by (simp add: load_state_def Let_def)
next
  assume "py_int P (stored kv ''calories'' (JInt 0)) = Inl ValueError
          \<or> (\<exists>c. py_int P (stored kv ''calories'' (JInt 0)) = Inr c
                \<and> py_int P (stored kv ''left_click_amount'' (JInt dl)) = Inl ValueError)
          \<or> (\<exists>c l. py_int P (stored kv ''calories'' (JInt 0)) = Inr c
                \<and> py_int P (stored kv ''left_click_amount'' (JInt dl)) = Inr l
                \<and> py_int P (stored kv ''right_click_amount'' (JInt dr)) = Inl ValueError)"
  from read_fields_ValueError[OF this] assms
  show "load_state P E S dl dr = Inr (0, dl, dr, now_caller E, True)"
    by (simp add: load_state_def Let_def)
qed

theorem load_state_recovers_witness:
  "state_file (disk (Some (Document state_partial)) None None) = Some (Document state_partial)
   \<and> \<not> read_state_fails (calm (at ''2024-01-10T00:00''))
   \<and> load_state utc_platform (calm (at ''2024-01-10T00:00''))
        (disk (Some (Document state_partial)) None None) 50 10
      = Inr (0, 70, 5, at ''2024-01-10T00:00'', True)
   \<and> state_file (disk (Some (Document state_bad_counter)) None None)
      = Some (Document state_bad_counter)
   \<and> load_state utc_platform (calm (at ''2024-01-10T00:00''))
        (disk (Some (Document state_bad_counter)) None None) 50 10
      = Inr (0, 50, 10, at ''2024-01-10T00:00'', True)"
proof -
  let ?E = "calm (at ''2024-01-10T00:00'')"
  let ?kv = "[(''left_click_amount'', JInt 70), (''right_click_amount'', JStr ''5''),
           (''session_start'', JStr ''yesterday'')]"
  let ?kb = "[(''calories'', JStr ''abc''), (''left_click_amount'', JInt 70),
           (''right_click_amount'', JInt 5),
           (''session_start'', JStr ''2024-01-05T08:00:00+00:00'')]"
  have s1: "state_file (disk (Some (Document state_partial)) None None)
      = Some (Document (JObj ?kv))" by (simp add: disk_def state_partial_def)
  have s2: "state_file (disk (Some (Document state_bad_counter)) None None)
      = Some (Document (JObj ?kb))" by (simp add: disk_def state_bad_counter_def)
  have rd: "\<not> read_state_fails ?E" by (simp add: calm_def)
  have now: "now_caller ?E = at ''2024-01-10T00:00''" by (simp add: calm_def)
  have c: "py_int utc_platform (stored ?kv ''calories'' (JInt 0)) = Inr 0" by code_simp
  have l: "py_int utc_platform (stored ?kv ''left_click_amount'' (JInt 50)) = Inr 70" by code_simp
  have r: "py_int utc_platform (stored ?kv ''right_click_amount'' (JInt 10)) = Inr 5" by code_simp
  have t: "parse_iso_datetime utc_platform (map_of ?kv ''session_start'') = Inr None" by code_simp
  from load_state_recovers[OF s1 rd, of utc_platform 0 50 70 10 5 None, THEN conjunct1] c l r t
  have a: "load_state utc_platform ?E (disk (Some (Document state_partial)) None None) 50 10
      = Inr (0, 70, 5, at ''2024-01-10T00:00'', True)"
    by (simp add: now)
  have v: "py_int utc_platform (stored ?kb ''calories'' (JInt 0)) = Inl ValueError" by code_simp
  from load_state_recovers[OF s2 rd, of utc_platform 0 50 0 10 0 None, THEN conjunct2] v
  have b: "load_state utc_platform ?E (disk (Some (Document state_bad_counter)) None None) 50 10
      = Inr (0, 50, 10, at ''2024-01-10T00:00'', True)"
    by (simp add: now)
  from s1 s2 rd a b show ?thesis by (simp add: state_partial_def state_bad_counter_def)
qed

text \<open>
  Claim C5 as stated fails: beside a counter that is not a number, the valid step 70
  and the valid \<^verbatim>\<open>session_start\<close> are replaced by the defaults; and a negative step
  becomes 0, not its default 50.
\<close>

theorem load_state_drops_valid_fields:
  "load_state utc_platform (calm (at ''2024-01-10T00:00''))
     (disk (Some (Document state_bad_counter)) None None) 50 10
     = Inr (0, 50, 10, at ''2024-01-10T00:00'', True)
   \<and> load_state utc_platform (calm (at ''2024-01-10T00:00''))
     (disk (Some (Document state_negative_step)) None None) 50 10
     = Inr (7, 0, 5, at ''2024-01-05T08:00'', False)"
  by code_simp

text \<open>
  Claim C8, as amended. \<^verbatim>\<open>load_state\<close> on a missing state file, or on one that is not
  JSON (an empty file is not), returns the counter 0, the default steps, the current
  time and \<^verbatim>\<open>needs_persist\<close> true. For a snapshot with a counter and steps not below
  0, a \<^verbatim>\<open>save_state\<close> that succeeds followed by a \<^verbatim>\<open>load_state\<close> returns the saved
  counter and steps and \<^verbatim>\<open>needs_persist\<close> false, and as \<^verbatim>\<open>session_start\<close> the instant
  that its saved text of whole seconds is parsed to.
\<close>

theorem load_state_defaults_and_round_trip:
  "(state_file S = None \<or> state_file S = Some Malformed
      \<longrightarrow> load_state P E S dl dr = Inr (0, dl, dr, now_caller E, True))
   \<and> (0 \<le> c \<and> 0 \<le> l \<and> 0 \<le> r \<and> \<not> write_state_fails E1 \<and> \<not> read_state_fails E2
        \<and> isoformat_seconds P s \<noteq> []
        \<and> fromisoformat P (isoformat_seconds P s) = Inr s'
      \<longrightarrow> load_state P E2 (save_state P E1 S c l r s) dl dr = Inr (c, l, r, s', False))"
proof (intro conjI impI)
  assume "state_file S = None \<or> state_file S = Some Malformed"
  then show "load_state P E S dl dr = Inr (0, dl, dr, now_caller E, True)"
    by (rule load_state_absent)
next
  assume h: "0 \<le> c \<and> 0 \<le> l \<and> 0 \<le> r \<and> \<not> write_state_fails E1 \<and> \<not> read_state_fails E2
        \<and> isoformat_seconds P s \<noteq> []
        \<and> fromisoformat P (isoformat_seconds P s) = Inr s'"
  let ?kv = "[(''calories'', JInt c), (''left_click_amount'', JInt l),
              (''right_click_amount'', JInt r),
              (''session_start'', JStr (isoformat_seconds P s))]"
  from h have sf: "state_file (save_state P E1 S c l r s) = Some (Document (JObj ?kv))"
    by (simp add: save_state_def state_json_def)
  have "read_fields P (now_caller E2) (JObj ?kv) dl dr =
     Inr (max 0 c, max 0 l, max 0 r, (case Some s' of None \<Rightarrow> now_caller E2 | Some t \<Rightarrow> t),
          Some s' = None)"
    using h by (intro read_fields_converted) (simp_all add: stored_def)
  with h sf show "load_state P E2 (save_state P E1 S c l r s) dl dr = Inr (c, l, r, s', False)"
    by (simp add: load_state_def Let_def)
qed

theorem load_state_defaults_and_round_trip_witness:
  "state_file (disk None None None) = None
   \<and> load_state utc_platform (calm (at ''2024-01-10T00:00'')) (disk None None None) 50 10
      = Inr (0, 50, 10, at ''2024-01-10T00:00'', True)
   \<and> (0::int) \<le> 120 \<and> (0::int) \<le> 50 \<and> (0::int) \<le> 10
   \<and> \<not> write_state_fails (calm (at ''2024-01-10T00:00''))
   \<and> \<not> read_state_fails (calm (at ''2024-01-10T00:00''))
   \<and> isoformat_seconds utc_platform (at ''2024-01-02T08:00'' + 500000) \<noteq> []
   \<and> fromisoformat utc_platform (isoformat_seconds utc_platform (at ''2024-01-02T08:00'' + 500000))
      = Inr (at ''2024-01-02T08:00'')
   \<and> load_state utc_platform (calm (at ''2024-01-10T00:00''))
        (save_state utc_platform (calm (at ''2024-01-10T00:00'')) (disk None None None)
           120 50 10 (at ''2024-01-02T08:00'' + 500000)) 50 10
      = Inr (120, 50, 10, at ''2024-01-02T08:00'', False)"
proof -
  let ?E = "calm (at ''2024-01-10T00:00'')"
  let ?S = "disk None None None"
  let ?s = "at ''2024-01-02T08:00'' + 500000"
  have a: "state_file ?S = None" by (simp add: disk_def)
  have w: "\<not> write_state_fails ?E" "\<not> read_state_fails ?E" "now_caller ?E = at ''2024-01-10T00:00''"
    by (simp_all add: calm_def)
  have i: "isoformat_seconds utc_platform ?s \<noteq> []" by code_simp
  have f: "fromisoformat utc_platform (isoformat_seconds utc_platform ?s)
      = Inr (at ''2024-01-02T08:00'')" by code_simp
  note main = load_state_defaults_and_round_trip[of ?S utc_platform ?E 50 10 120 50 10 ?E ?E ?s "at ''2024-01-02T08:00''"]
  from main[THEN conjunct1] a
  have one: "load_state utc_platform ?E ?S 50 10 = Inr (0, 50, 10, at ''2024-01-10T00:00'', True)"
    by (simp add: w)
  from main[THEN conjunct2] w i f
  have two: "load_state utc_platform ?E (save_state utc_platform ?E ?S 120 50 10 ?s) 50 10
      = Inr (120, 50, 10, at ''2024-01-02T08:00'', False)"
    by simp
  from a one w i f two show ?thesis by simp
qed

text \<open>
  Claim C8 as stated fails: a \<^verbatim>\<open>session_start\<close> half a second after 08:00:00 is saved
  as 08:00:00 and loaded as that.
\<close>

theorem save_load_cuts_session_start:
  "load_state utc_platform (calm (at ''2024-01-10T00:00''))
     (save_state utc_platform (calm (at ''2024-01-10T00:00'')) (disk None None None)
        120 50 10 (at ''2024-01-02T08:00'' + 500000)) 50 10
     = Inr (120, 50, 10, at ''2024-01-02T08:00'', False)
   \<and> at ''2024-01-02T08:00'' \<noteq> at ''2024-01-02T08:00'' + 500000"
  by code_simp

section \<open>The weekly summary\<close>

lemma map_of_assign:
  "map_of (assign d k v) k' = (if k' = k then Some v else map_of d k')"
  by (induction d) auto

lemma init_days_first:
  "first_session_event_ts (init_days sd offs A) = first_session_event_ts A"
  by (induction offs arbitrary: A) (simp_all add: Let_def)

lemma init_days_keys:
  "map_of (totals_net (init_days sd offs A)) k \<noteq> None \<Longrightarrow>
   map_of (totals_net A) k \<noteq> None \<or> k \<in> set (map (\<lambda>offset. date_isoformat (sd + int offset)) offs)"
proof (induction offs arbitrary: A)
  case Nil
  then show ?case by simp
next
  case (Cons a offs)
  from Cons.IH[of "A\<lparr>totals_net := assign (totals_net A) (date_isoformat (sd + int a)) 0,
                     day_has_data := assign (day_has_data A) (date_isoformat (sd + int a)) False\<rparr>"]
    Cons.prems
  show ?case by (auto simp: Let_def map_of_assign split: if_splits)
qed

lemma list_days_untracked:
  "list_days P A sd tsd False offs acc = acc"
proof (induction offs)
  case Nil
  then show ?case by simp
next
  case (Cons a offs)
  obtain lines bars total_net days_count where "acc = (lines, bars, total_net, days_count)"
    by (cases acc)
  with Cons show ?case by (simp add: Let_def)
qed

lemma finish_summary_untracked:
  "first_session_event_ts A = None \<Longrightarrow> finish_summary P sd A = Dict no_data_text []"
  by (simp add: finish_summary_def Let_def list_days_untracked no_data_text_def)

lemma count_event_untracked:
  assumes "stamp P (Entry item) = Inr (Some t)" and "week_start P E \<le> t"
      and "\<not> tracked P E (Entry item)"
      and "\<And>k. map_of (totals_net A) k \<noteq> None \<Longrightarrow> k \<in> set (week_keys P E)"
  shows "count_event P item A = Inr A"
proof -
  from assms(1) obtain v where g: "get item ''timestamp'' = Inr v"
    and p: "parse_iso_datetime P v = Inr (Some t)"
    by (auto split: sum.splits)
  from g obtain kv where item: "item = JObj kv" by (cases item) auto
  then obtain action where a: "get item ''action'' = Inr action" by simp
  show ?thesis
  proof (cases "action \<in> set (map (\<lambda>a. Some (JStr a)) [''add'', ''subtract'', ''reset'', ''init''])")
    case False
    with a show ?thesis by (simp add: count_event_def)
  next
    case True
    with assms(1,2,3) a have "date_isoformat (local_date P t) \<notin> set (week_keys P E)"
      by (auto simp: tracked_def)
    with assms(4) have "map_of (totals_net A) (date_isoformat (local_date P t)) = None"
      by blast
    with a True g p show ?thesis by (simp add: count_event_def Let_def)
  qed
qed

lemma count_events_untracked:
  assumes "\<And>k. map_of (totals_net A) k \<noteq> None \<Longrightarrow> k \<in> set (week_keys P E)"
  shows "list_all (\<lambda>l. readable P l \<and> \<not> tracked P E l) ls \<Longrightarrow>
         count_events P (week_start P E) ls A = Inr A"
proof (induction ls)
  case Nil
  then show ?case by simp
next
  case (Cons l ls)
  then have IH: "count_events P (week_start P E) ls A = Inr A"
    and r: "readable P l" and n: "\<not> tracked P E l" by simp_all
  show ?case
  proof (cases l)
    case Blank
    with IH show ?thesis by simp
  next
    case (Garbage s)
    with IH show ?thesis by simp
  next
    case Torn
    with IH show ?thesis by simp
  next
    case (Entry item)
    from r Entry obtain ts where st: "stamp P (Entry item) = Inr ts"
      by (auto simp: readable_def split: sum.splits)
    then obtain v where g: "get item ''timestamp'' = Inr v"
      and p: "parse_iso_datetime P v = Inr ts"
      by (auto split: sum.splits)
    show ?thesis
    proof (cases ts)
      case None
      with Entry g p IH show ?thesis by simp
    next
      case (Some t)
      show ?thesis
      proof (cases "week_start P E \<le> t")
        case False
        with Entry g p Some IH show ?thesis by simp
      next
        case True
        from st Some have "stamp P (Entry item) = Inr (Some t)" by simp
        from count_event_untracked[OF this True _ assms] n Entry
        have "count_event P item A = Inr A" by simp
        with Entry g p Some True IH show ?thesis by simp
      qed
    qed
  qed
qed

lemma finish_summary_Dict: "finish_summary P sd A \<noteq> Str s"
  by (simp add: finish_summary_def Let_def split: prod.splits)

lemma summary_Str:
  "build_last_week_summary P E S = Inr (Str s) \<longleftrightarrow>
     session_log S \<noteq> None \<and> read_log_fails E \<and> s = ''Failed to read weekly summary.''"
proof (cases "session_log S")
  case None
  then show ?thesis
    by (simp add: build_last_week_summary_def Let_def finish_summary_Dict)
next
  case (Some lines)
  show ?thesis
  proof (cases "read_log_fails E")
    case True
    with Some show ?thesis by (auto simp: build_last_week_summary_def Let_def)
  next
    case False
    with Some show ?thesis
      by (simp add: build_last_week_summary_def Let_def finish_summary_Dict split: sum.splits)
  qed
qed

lemma summary_untracked:
  assumes "session_log S = None \<or> \<not> read_log_fails E"
      and "list_all (\<lambda>l. readable P l \<and> \<not> tracked P E l) (contents (session_log S))"
  shows "build_last_week_summary P E S = Inr (Dict no_data_text [])"
proof -
  let ?sd = "local_date P (now_caller E) - 6"
  let ?A0 = "init_days ?sd [0..<7] \<lparr>totals_net = [], day_has_data = [], first_session_event_ts = None\<rparr>"
  have f: "first_session_event_ts ?A0 = None" by (simp only: init_days_first) simp
  have k: "\<And>k. map_of (totals_net ?A0) k \<noteq> None \<Longrightarrow> k \<in> set (week_keys P E)"
    using init_days_keys[of ?sd "[0..<7]"
        "\<lparr>totals_net = [], day_has_data = [], first_session_event_ts = None\<rparr>"]
    unfolding week_keys_def by simp
  show ?thesis
  proof (cases "session_log S")
    case None
    then show ?thesis
      by (simp add: build_last_week_summary_def Let_def finish_summary_untracked[OF f])
  next
    case (Some lines)
    with assms have rd: "\<not> read_log_fails E"
      and la: "list_all (\<lambda>l. readable P l \<and> \<not> tracked P E l) lines"
      by (simp_all add: contents_def)
    from count_events_untracked[OF k la]
    have "count_events P (week_start P E) lines ?A0 = Inr ?A0" .
    with Some rd show ?thesis
      by (simp add: build_last_week_summary_def Let_def week_start_def
                    finish_summary_untracked[OF f])
  qed
qed

text \<open>
  Claim C4, as amended. When the active log is absent, or can be read and none of its
  lines counts in the window (no entry has a timestamp in the window, one of the four
  actions and a date among the seven days), \<^verbatim>\<open>build_last_week_summary\<close> returns the
  dict, with the text of an empty line followed by
  \<^verbatim>\<open>No tracked data in the last 7 days.\<close> and with no bars. It returns a string only
  when the log exists and cannot be read, and the string is then
  \<^verbatim>\<open>Failed to read weekly summary.\<close>
\<close>

theorem weekly_no_data_is_a_dict:
  "((session_log S = None \<or> \<not> read_log_fails E)
     \<and> list_all (\<lambda>l. readable P l \<and> \<not> tracked P E l) (contents (session_log S))
    \<longrightarrow> build_last_week_summary P E S = Inr (Dict no_data_text []))
   \<and> (build_last_week_summary P E S = Inr (Str s) \<longleftrightarrow>
        session_log S \<noteq> None \<and> read_log_fails E \<and> s = ''Failed to read weekly summary.'')"
  using summary_untracked[of S E P] summary_Str[of P E S s] by blast

theorem weekly_no_data_is_a_dict_witness:
  "\<not> read_log_fails (calm (at ''2024-01-10T00:00''))
   \<and> list_all (\<lambda>l. readable utc_platform l \<and> \<not> tracked utc_platform (calm (at ''2024-01-10T00:00'')) l)
        (contents (session_log (disk None (Some example_week) None)))
   \<and> build_last_week_summary utc_platform (calm (at ''2024-01-10T00:00''))
        (disk None (Some example_week) None)
      = Inr (Dict no_data_text [])
   \<and> session_log (disk None (Some example_week) None) \<noteq> None
   \<and> read_log_fails log_read_down
   \<and> build_last_week_summary utc_platform log_read_down (disk None (Some example_week) None)
      = Inr (Str ''Failed to read weekly summary.'')"
proof -
  let ?S = "disk None (Some example_week) None"
  have a: "\<not> read_log_fails (calm (at ''2024-01-10T00:00''))" by (simp add: calm_def)
  have b: "list_all (\<lambda>l. readable utc_platform l \<and> \<not> tracked utc_platform (calm (at ''2024-01-10T00:00'')) l)
        (contents (session_log ?S))" by code_simp
  from weekly_no_data_is_a_dict[of ?S "calm (at ''2024-01-10T00:00'')" utc_platform "[]", THEN conjunct1] a b
  have c: "build_last_week_summary utc_platform (calm (at ''2024-01-10T00:00'')) ?S
      = Inr (Dict no_data_text [])" by blast
  have d: "session_log ?S \<noteq> None" by (simp add: disk_def)
  have e: "read_log_fails log_read_down" by (simp add: log_read_down_def)
  from weekly_no_data_is_a_dict[of ?S log_read_down utc_platform "''Failed to read weekly summary.''", THEN conjunct2] d e
  have f: "build_last_week_summary utc_platform log_read_down ?S
      = Inr (Str ''Failed to read weekly summary.'')" by blast
  from a b c d e f show ?thesis by blast
qed

text \<open>
  Claim C4 as stated fails: without a log, and with a log whose entries are all older
  than the window, the result is the dict and not a string.
\<close>

theorem weekly_no_data_not_a_string:
  "build_last_week_summary utc_platform (calm (at ''2024-01-10T00:00'')) (disk None None None)
     = Inr (Dict (CHR 0x0A # ''No tracked data in the last 7 days.'') [])
   \<and> build_last_week_summary utc_platform (calm (at ''2024-01-10T00:00''))
        (disk None (Some example_week) None)
     = Inr (Dict (CHR 0x0A # ''No tracked data in the last 7 days.'') [])"
  by code_simp

lemma weekly_example_counted:
  "(case count_events utc_platform ((days_from_civil 2024 1 2 - 6) * day_us - 0) example_week
           (init_days (days_from_civil 2024 1 2 - 6) [0..<7]
              \<lparr>totals_net = [], day_has_data = [], first_session_event_ts = None\<rparr>) of
      Inl e \<Rightarrow> Inl e
    | Inr A \<Rightarrow> Inr (finish_summary utc_platform (days_from_civil 2024 1 2 - 6) A))
   = Inr (Dict (''2024-01-01 (Mon): net +50 kcal'' @ [CHR 0x0A]
                @ ''2024-01-02 (Tue): net -10 kcal'' @ [CHR 0x0A]
                @ [CHR 0x0A]
                @ ''Tracked-period net: +40 kcal'' @ [CHR 0x0A]
                @ ''Tracked-period average net: +20.0 kcal/day'')
            [\<lparr>day_key = ''2024-01-01'', label = ''Mon'', net = 50\<rparr>,
             \<lparr>day_key = ''2024-01-02'', label = ''Tue'', net = - 10\<rparr>])"
  by code_simp

text \<open>
  Claim C7, as amended. For the log of the three entries (init 0 at 2024-01-01T08:00,
  add +50 at 2024-01-01T09:00, subtract -10 at 2024-01-02T10:00), the summary built
  on 2 January 2024 reports 2024-01-01 with net +50, 2024-01-02 with net -10, the
  total +40 and the average +20.0 per day: the total divided by the two days from the
  first tracked day to today.
\<close>

theorem weekly_example_on_second_day:
  assumes "local_date utc_platform (now_caller E) = days_from_civil 2024 1 2"
      and "\<not> read_log_fails E" and "session_log S = Some example_week"
  shows "build_last_week_summary utc_platform E S
   = Inr (Dict (''2024-01-01 (Mon): net +50 kcal'' @ [CHR 0x0A]
                @ ''2024-01-02 (Tue): net -10 kcal'' @ [CHR 0x0A]
                @ [CHR 0x0A]
                @ ''Tracked-period net: +40 kcal'' @ [CHR 0x0A]
                @ ''Tracked-period average net: +20.0 kcal/day'')
            [\<lparr>day_key = ''2024-01-01'', label = ''Mon'', net = 50\<rparr>,
             \<lparr>day_key = ''2024-01-02'', label = ''Tue'', net = - 10\<rparr>])"
proof -
  have off: "utcoffset utc_platform (now_caller E) = 0" by (simp add: utc_platform_def)
  show ?thesis
    unfolding build_last_week_summary_def Let_def assms(1) assms(3) off
    by (simp only: option.case assms(2) if_False weekly_example_counted)
qed

theorem weekly_example_on_second_day_witness:
  "local_date utc_platform (now_caller (calm (at ''2024-01-02T12:00''))) = days_from_civil 2024 1 2
   \<and> \<not> read_log_fails (calm (at ''2024-01-02T12:00''))
   \<and> session_log (disk None (Some example_week) None) = Some example_week
   \<and> build_last_week_summary utc_platform (calm (at ''2024-01-02T12:00''))
        (disk None (Some example_week) None)
   = Inr (Dict (''2024-01-01 (Mon): net +50 kcal'' @ [CHR 0x0A]
                @ ''2024-01-02 (Tue): net -10 kcal'' @ [CHR 0x0A]
                @ [CHR 0x0A]
                @ ''Tracked-period net: +40 kcal'' @ [CHR 0x0A]
                @ ''Tracked-period average net: +20.0 kcal/day'')
            [\<lparr>day_key = ''2024-01-01'', label = ''Mon'', net = 50\<rparr>,
             \<lparr>day_key = ''2024-01-02'', label = ''Tue'', net = - 10\<rparr>])"
proof -
  have a: "local_date utc_platform (now_caller (calm (at ''2024-01-02T12:00'')))
      = days_from_civil 2024 1 2" by code_simp
  have b: "\<not> read_log_fails (calm (at ''2024-01-02T12:00''))" by (simp add: calm_def)
  have c: "session_log (disk None (Some example_week) None) = Some example_week"
    by (simp add: disk_def)
  from weekly_example_on_second_day[OF a b c] a b c show ?thesis by blast
qed

text \<open>
  Claim C7 as stated fails for a window that ends later: built on 3 January, the same
  log gives a third day without data and the average +13.3, the total divided by three.
\<close>

theorem weekly_example_on_third_day:
  "build_last_week_summary utc_platform (calm (at ''2024-01-03T12:00''))
      (disk None (Some example_week) None)
   = Inr (Dict (''2024-01-01 (Mon): net +50 kcal'' @ [CHR 0x0A]
                @ ''2024-01-02 (Tue): net -10 kcal'' @ [CHR 0x0A]
                @ ''2024-01-03 (Wed): no data'' @ [CHR 0x0A]
                @ [CHR 0x0A]
                @ ''Tracked-period net: +40 kcal'' @ [CHR 0x0A]
                @ ''Tracked-period average net: +13.3 kcal/day'')
            [\<lparr>day_key = ''2024-01-01'', label = ''Mon'', net = 50\<rparr>,
             \<lparr>day_key = ''2024-01-02'', label = ''Tue'', net = - 10\<rparr>])"
  by code_simp

end
